theory Spec2Isabelle
  imports Main "HOL-Library.Word" "HOL-Library.Sublist"
begin

section \<open>The note-edit pipeline of \<^verbatim>\<open>packages/backend/src/core/NoteEditService.ts\<close>\<close>

text \<open>
  The theory embeds \<^verbatim>\<open>NoteEditService.edit\<close>, \<^verbatim>\<open>postNoteEdited\<close>,
  \<^verbatim>\<open>renderNoteOrRenoteActivity\<close>, \<^verbatim>\<open>isQuote\<close>, \<^verbatim>\<open>extractMentionedUsers\<close>
  and the class \<^verbatim>\<open>NotificationManager\<close>.

  Conventions.
  \<^item> A value that may be \<^verbatim>\<open>null\<close> or \<^verbatim>\<open>undefined\<close> is an \<open>option\<close>; \<^verbatim>\<open>a ?? b\<close> is a
    \<open>case\<close> on it.
  \<^item> Identifiers, host names, visibility classes and error names are only ever compared
    for equality; they are \<open>string\<close>. Free text (body, content warning, tags) is a
    sequence of UTF-16 code units, \<open>jsstring\<close>, because the source takes its
    \<^verbatim>\<open>.length\<close>, slices it and counts its code points.
  \<^item> A \<^verbatim>\<open>throw\<close> is the left summand of \<open>error + 'a\<close>.
  \<^item> Every collaborator injected into the service (repositories, policy, utility and
    renderer services) is a field of the record \<open>Env\<close>. A repository is the list of
    its rows.
  \<^item> Calls that write to the outside world are collected, in source order, in a list of
    \<open>effect\<close>s.
\<close>

subsection \<open>Strings\<close>

type_synonym jsstring = "16 word list"

definition js :: "string \<Rightarrow> jsstring" where
  "js s = map (\<lambda>c. of_nat (of_char c)) s"

text \<open>JavaScript truthiness of a string that may be null: non-null and non-empty.\<close>

definition truthy :: "'a list option \<Rightarrow> bool" where
  "truthy s = (case s of None \<Rightarrow> False | Some x \<Rightarrow> x \<noteq> [])"

definition isHighSurrogate :: "16 word \<Rightarrow> bool" where
  "isHighSurrogate u = (0xD800 \<le> u \<and> u \<le> 0xDBFF)"

definition isLowSurrogate :: "16 word \<Rightarrow> bool" where
  "isLowSurrogate u = (0xDC00 \<le> u \<and> u \<le> 0xDFFF)"

text \<open>
  \<^verbatim>\<open>Array.from(tag).length\<close>: the string iterator yields one element per code point, a
  high surrogate followed by a low surrogate being one code point and every other code
  unit (a lone surrogate too) one of its own.
\<close>

fun codePointLength :: "jsstring \<Rightarrow> nat" where
  "codePointLength [] = 0"
| "codePointLength [u] = 1"
| "codePointLength (u # v # us) =
     (if isHighSurrogate u \<and> isLowSurrogate v then Suc (codePointLength us)
      else Suc (codePointLength (v # us)))"

text \<open>\<^verbatim>\<open>String.prototype.trim\<close> removes white space and line terminators at both ends.\<close>

definition isWhiteSpace :: "16 word \<Rightarrow> bool" where
  "isWhiteSpace u =
     (u \<in> {0x0009, 0x000A, 0x000B, 0x000C, 0x000D, 0x0020, 0x00A0, 0x1680,
            0x2028, 0x2029, 0x202F, 0x205F, 0x3000, 0xFEFF}
      \<or> (0x2000 \<le> u \<and> u \<le> 0x200A))"

definition trim :: "jsstring \<Rightarrow> jsstring" where
  "trim s = rev (dropWhile isWhiteSpace (rev (dropWhile isWhiteSpace s)))"

subsection \<open>NotificationManager\<close>

datatype NotificationType = Reply | Renote | Quote | Mention

record QueueEntry =
  target :: string
  reason :: NotificationType

record NotificationManager =
  nm_notifier :: string
  nm_noteId :: string
  nm_noteRenoteId :: "string option"
  queue :: "QueueEntry list"

text \<open>The constructor: \<^verbatim>\<open>this.queue = []\<close>.\<close>

definition newNotificationManager :: "string \<Rightarrow> string \<Rightarrow> string option \<Rightarrow> NotificationManager" where
  "newNotificationManager notifierId noteId renoteId =
     \<lparr>nm_notifier = notifierId, nm_noteId = noteId, nm_noteRenoteId = renoteId, queue = []\<rparr>"

text \<open>
  \<^verbatim>\<open>exist.reason = reason\<close> writes to the object \<^verbatim>\<open>queue.find\<close> returned, which is the
  first entry for that target.
\<close>

fun setReason :: "string \<Rightarrow> NotificationType \<Rightarrow> QueueEntry list \<Rightarrow> QueueEntry list" where
  "setReason t r [] = []"
| "setReason t r (x # xs) =
     (if target x = t then x\<lparr>reason := r\<rparr> # xs else x # setReason t r xs)"

definition push :: "NotificationManager \<Rightarrow> string \<Rightarrow> NotificationType \<Rightarrow> NotificationManager" where
  "push nm notifiee rsn =
     (if nm_notifier nm = notifiee then nm
      else case find (\<lambda>x. target x = notifiee) (queue nm) of
        Some exist \<Rightarrow>
          (if rsn \<noteq> Mention then nm\<lparr>queue := setReason notifiee rsn (queue nm)\<rparr> else nm)
      | None \<Rightarrow> nm\<lparr>queue := queue nm @ [\<lparr>target = notifiee, reason = rsn\<rparr>]\<rparr>)"

text \<open>A sequence of \<^verbatim>\<open>push\<close> calls, oldest first.\<close>

fun pushAll :: "NotificationManager \<Rightarrow> (string \<times> NotificationType) list \<Rightarrow> NotificationManager" where
  "pushAll nm [] = nm"
| "pushAll nm ((t, r) # ps) = pushAll (push nm t r) ps"

text \<open>
  The reason a run of triggers for one target ends with, as \<^verbatim>\<open>push\<close> computes it: the
  first trigger creates the entry, every later trigger other than a mention overwrites it.
\<close>

fun mergeReason :: "NotificationType \<Rightarrow> NotificationType list \<Rightarrow> NotificationType" where
  "mergeReason cur [] = cur"
| "mergeReason cur (r # rs) = mergeReason (if r \<noteq> Mention then r else cur) rs"

text \<open>The reasons pushed for one target, oldest first.\<close>

definition triggers :: "string \<Rightarrow> (string \<times> NotificationType) list \<Rightarrow> NotificationType list" where
  "triggers t ps = map snd (filter (\<lambda>p. fst p = t) ps)"

subsection \<open>Entities\<close>

text \<open>
  \<^verbatim>\<open>MinimumUser\<close> and the fields of \<^verbatim>\<open>MiUser\<close> the service reads. The flags
  \<^verbatim>\<open>isBot\<close> and \<^verbatim>\<open>isCat\<close> of the acting user are never read.
\<close>

record MiUser =
  user_id :: string
  user_username :: string
  user_host :: "string option"
  user_uri :: "string option"

record MiChannel =
  channel_id :: string

record MiDriveFile =
  file_id :: string
  file_type :: string

text \<open>Dates are milliseconds since the epoch.\<close>

record IPoll =
  poll_choices :: "jsstring list"
  poll_expiresAt :: "int option"

record IMentionedRemoteUser =
  mru_uri :: "string option"
  mru_url :: "string option"
  mru_username :: string
  mru_host :: "string option"

text \<open>
  The columns of \<^verbatim>\<open>MiNote\<close> that \<^verbatim>\<open>edit\<close> reads or writes.
  \<^verbatim>\<open>mentionedRemoteUsers\<close> is kept as the list that the source passes to
  \<^verbatim>\<open>JSON.stringify\<close>.
\<close>

record MiNote =
  note_id :: string
  note_updatedAt :: "int option"
  note_fileIds :: "string list"
  note_replyId :: "string option"
  note_renoteId :: "string option"
  note_channelId :: "string option"
  note_threadId :: "string option"
  note_name :: "jsstring option"
  note_text :: "jsstring option"
  note_hasPoll :: bool
  note_cw :: "jsstring option"
  note_tags :: "jsstring list"
  note_emojis :: "jsstring list"
  note_userId :: string
  note_localOnly :: bool
  note_reactionAcceptance :: "string option"
  note_visibility :: string
  note_visibleUserIds :: "string list"
  note_attachedFileTypes :: "string list"
  note_replyUserId :: "string option"
  note_replyUserHost :: "string option"
  note_renoteUserId :: "string option"
  note_renoteUserHost :: "string option"
  note_userHost :: "string option"
  note_uri :: "string option"
  note_url :: "string option"
  note_mentions :: "string list option"
  note_mentionedRemoteUsers :: "IMentionedRemoteUser list option"

text \<open>The type \<^verbatim>\<open>Option\<close> of the edit payload; every field may be absent.\<close>

record OptionT =
  opt_createdAt :: "int option"
  opt_name :: "jsstring option"
  opt_text :: "jsstring option"
  opt_reply :: "MiNote option"
  opt_renote :: "MiNote option"
  opt_files :: "MiDriveFile list option"
  opt_poll :: "IPoll option"
  opt_localOnly :: "bool option"
  opt_reactionAcceptance :: "string option"
  opt_cw :: "jsstring option"
  opt_visibility :: "string option"
  opt_visibleUsers :: "MiUser list option"
  opt_channel :: "MiChannel option"
  opt_apMentions :: "MiUser list option"
  opt_apHashtags :: "jsstring list option"
  opt_apEmojis :: "jsstring list option"
  opt_uri :: "string option"
  opt_url :: "string option"
  opt_app :: "string option"

subsection \<open>Errors and effects\<close>

text \<open>
  \<open>JsError name message\<close> is an \<^verbatim>\<open>Error\<close> object; \<^verbatim>\<open>new Error(m)\<close> has the name
  \<^verbatim>\<open>Error\<close>. \<open>EntityNotFoundError\<close> is what \<^verbatim>\<open>findOneByOrFail\<close> throws,
  \<open>QueryFailedError code\<close> a failure reported by the database driver.
\<close>

datatype error =
    JsError string string
  | ContainsProhibitedWordsError
  | EntityNotFoundError
  | QueryFailedError string

fun errorName :: "error \<Rightarrow> string" where
  "errorName (JsError n m) = n"
| "errorName ContainsProhibitedWordsError = ''Error''"
| "errorName EntityNotFoundError = ''EntityNotFoundError''"
| "errorName (QueryFailedError c) = ''QueryFailedError''"

text \<open>
  What \<^verbatim>\<open>apRendererService\<close> is asked to render (\<^verbatim>\<open>addContext\<close> wraps either):
  an announce of a target uri for a note, or an update of a note by a user.
\<close>

datatype Activity =
    RenderAnnounce string string
  | RenderNoteUpdate string string

datatype Recipe = DirectRecipe string | FollowersRecipe

record Webhook =
  webhook_id :: string
  webhook_userId :: string
  webhook_on :: "string list"

datatype effect =
    NotesRepositoryUpdate string MiNote
  | PostNoteEditedScheduled string MiUser OptionT bool "jsstring list" "MiUser list"
  | ModerationLog string string string string "string option"
  | NotesChartUpdate string
  | PerUserNotesChartUpdate string string
  | InstanceNotesCountIncrement string
  | InstanceChartUpdateNote string string
  | UpdateHashtags string "jsstring list"
  | EndedPollNotificationQueueAdd string int
  | ActiveUsersChartWrite string
  | InsertNoteUnread string string bool bool
  | PublishNotesStream string
  | AddNoteToRoleTimeline string
  | WebhookDeliver string string
  | DeliverToRelays string "Activity option"
  | DeliverManagerExecute string "Activity option" "Recipe list"
  | ChannelUpdateLastNotedAt string int
  | SearchIndexNote string
  | CreateNotification string NotificationType string "string option" string

subsection \<open>Collaborators\<close>

typedecl MfmNode

record Meta =
  sensitiveWords :: "jsstring list"
  prohibitedWords :: "jsstring list"
  silencedHosts :: "string list"
  enableChartsForRemoteUser :: bool
  enableChartsForFederatedInstances :: bool

text \<open>
  The services and constants \<^verbatim>\<open>edit\<close> is given. \<open>noteReply\<close> and \<open>noteChannel\<close>
  are the relation properties \<^verbatim>\<open>reply\<close> and \<^verbatim>\<open>channel\<close> of a loaded note.
  \<open>notesUpdate\<close> is what \<^verbatim>\<open>notesRepository.update\<close> throws for a record, if
  anything. \<open>canPublicNote\<close> is that field of \<^verbatim>\<open>roleService.getUserPolicies\<close>.
\<close>

record Env =
  notesRepository :: "MiNote list"
  noteReply :: "MiNote \<Rightarrow> MiNote option"
  noteChannel :: "MiNote \<Rightarrow> MiChannel option"
  channelsRepository :: "MiChannel list"
  pollsRepository :: "(string \<times> IPoll) list"
  driveFilesRepository :: "MiDriveFile list"
  usersRepository :: "MiUser list"
  userProfilesRepository :: "(string \<times> string option) list"
  notesUpdate :: "MiNote \<Rightarrow> error option"
  isDuplicateKeyValueError :: "error \<Rightarrow> bool"
  metaFetch :: Meta
  isKeyWordIncluded :: "jsstring \<Rightarrow> jsstring list \<Rightarrow> bool"
  isSilencedHost :: "string list \<Rightarrow> string option \<Rightarrow> bool"
  canPublicNote :: "string \<Rightarrow> bool"
  checkBlocked :: "string \<Rightarrow> string \<Rightarrow> bool"
  idServiceParse :: "string \<Rightarrow> int"
  dateNow :: int
  DB_MAX_NOTE_TEXT_LENGTH :: nat
  mfmParse :: "jsstring \<Rightarrow> MfmNode list"
  extractHashtags :: "MfmNode list \<Rightarrow> jsstring list"
  extractCustomEmojisFromMfm :: "MfmNode list \<Rightarrow> jsstring list"
  extractMentions :: "MfmNode list \<Rightarrow> (string \<times> string option) list"
  resolveUser :: "string \<Rightarrow> string option \<Rightarrow> MiUser option"
  normalizeForSearch :: "jsstring \<Rightarrow> jsstring"
  getActiveWebhooks :: "Webhook list"
  configUrl :: string

definition findOneByOrFail :: "('a \<Rightarrow> bool) \<Rightarrow> 'a list \<Rightarrow> error + 'a" where
  "findOneByOrFail p rows =
     (case find p rows of None \<Rightarrow> Inl EntityNotFoundError | Some x \<Rightarrow> Inr x)"

text \<open>\<^verbatim>\<open>findBy({ id: In(ids) })\<close>: the rows whose key is among \<open>ids\<close>.\<close>

definition findByIn :: "('a \<Rightarrow> string) \<Rightarrow> string list \<Rightarrow> 'a list \<Rightarrow> 'a list" where
  "findByIn key ids rows = filter (\<lambda>r. key r \<in> set ids) rows"

text \<open>
  Modelled from the spec: \<^verbatim>\<open>userEntityService.isLocalUser\<close> and \<^verbatim>\<open>isRemoteUser\<close>
  are not among the sources; the data model says of a post's authorship "user host --
  null for local".
\<close>

definition isLocalUser :: "MiUser \<Rightarrow> bool" where
  "isLocalUser u = (user_host u = None)"

definition isRemoteUser :: "MiUser \<Rightarrow> bool" where
  "isRemoteUser u = (user_host u \<noteq> None)"

definition bindE :: "error + 'a \<Rightarrow> ('a \<Rightarrow> error + 'b) \<Rightarrow> error + 'b" where
  "bindE m f = (case m of Inl e \<Rightarrow> Inl e | Inr x \<Rightarrow> f x)"

subsection \<open>edit: what the payload inherits from the target note\<close>

text \<open>
  \<^verbatim>\<open>if (data.reply == null) data.reply = targetNote.reply;\<close> and the same for the
  channel.
\<close>

definition inheritReplyAndChannel :: "Env \<Rightarrow> MiNote \<Rightarrow> OptionT \<Rightarrow> OptionT" where
  "inheritReplyAndChannel env targetNote data =
     (let d1 = (if opt_reply data = None
                then data\<lparr>opt_reply := noteReply env targetNote\<rparr> else data)
      in if opt_channel d1 = None
         then d1\<lparr>opt_channel := noteChannel env targetNote\<rparr> else d1)"

definition channelsFindOneBy :: "Env \<Rightarrow> string option \<Rightarrow> MiChannel option" where
  "channelsFindOneBy env cid = find (\<lambda>c. Some (channel_id c) = cid) (channelsRepository env)"

text \<open>A reply to a note outside the payload's channel takes the scope of that note.\<close>

definition replyOutsideChannel :: "Env \<Rightarrow> OptionT \<Rightarrow> OptionT" where
  "replyOutsideChannel env data =
     (case opt_reply data of
        None \<Rightarrow> data
      | Some reply \<Rightarrow>
          (case opt_channel data of
             None \<Rightarrow> data
           | Some channel \<Rightarrow>
               if note_channelId reply \<noteq> Some (channel_id channel)
               then (if truthy (note_channelId reply)
                     then data\<lparr>opt_channel := channelsFindOneBy env (note_channelId reply)\<rparr>
                     else data\<lparr>opt_channel := None\<rparr>)
               else data))"

text \<open>A reply to a note inside a channel takes that channel.\<close>

definition replyInsideChannel :: "Env \<Rightarrow> OptionT \<Rightarrow> OptionT" where
  "replyInsideChannel env data =
     (case opt_reply data of
        None \<Rightarrow> data
      | Some reply \<Rightarrow>
          if opt_channel data = None \<and> truthy (note_channelId reply)
          then data\<lparr>opt_channel := channelsFindOneBy env (note_channelId reply)\<rparr>
          else data)"

definition orElse :: "'a option \<Rightarrow> 'a \<Rightarrow> 'a option" where
  "orElse x d = (case x of None \<Rightarrow> Some d | Some v \<Rightarrow> Some v)"

text \<open>
  The block of \<^verbatim>\<open>if (data.x == null) data.x = ...\<close> statements, in the source's order:
  creation date, visibility and locality; the renoted note, the replied-to note and the
  poll, each with a \<^verbatim>\<open>findOneByOrFail\<close> that may throw; then files, name, visible
  users and reaction acceptance.
\<close>

definition inheritScope :: "Env \<Rightarrow> string \<Rightarrow> MiNote \<Rightarrow> OptionT \<Rightarrow> OptionT" where
  "inheritScope env targetId targetNote data =
     data\<lparr>opt_createdAt := orElse (opt_createdAt data) (idServiceParse env targetId),
          opt_visibility := orElse (opt_visibility data) (note_visibility targetNote),
          opt_localOnly := orElse (opt_localOnly data) (note_localOnly targetNote)\<rparr>"

definition inheritRenote :: "Env \<Rightarrow> MiNote \<Rightarrow> OptionT \<Rightarrow> error + OptionT" where
  "inheritRenote env targetNote data =
     (if opt_renote data = None \<and> truthy (note_renoteId targetNote)
      then bindE (findOneByOrFail (\<lambda>n. Some (note_id n) = note_renoteId targetNote)
                    (notesRepository env))
             (\<lambda>n. Inr (data\<lparr>opt_renote := Some n\<rparr>))
      else Inr data)"

definition inheritReply :: "Env \<Rightarrow> MiNote \<Rightarrow> OptionT \<Rightarrow> error + OptionT" where
  "inheritReply env targetNote data =
     (if opt_reply data = None \<and> truthy (note_replyId targetNote)
      then bindE (findOneByOrFail (\<lambda>n. Some (note_id n) = note_replyId targetNote)
                    (notesRepository env))
             (\<lambda>n. Inr (data\<lparr>opt_reply := Some n\<rparr>))
      else Inr data)"

definition inheritPoll :: "Env \<Rightarrow> string \<Rightarrow> MiNote \<Rightarrow> OptionT \<Rightarrow> error + OptionT" where
  "inheritPoll env targetId targetNote data =
     (if opt_poll data = None \<and> note_hasPoll targetNote
      then bindE (findOneByOrFail (\<lambda>p. fst p = targetId) (pollsRepository env))
             (\<lambda>p. Inr (data\<lparr>opt_poll := Some (snd p)\<rparr>))
      else Inr data)"

definition inheritRest :: "Env \<Rightarrow> MiNote \<Rightarrow> OptionT \<Rightarrow> OptionT" where
  "inheritRest env targetNote data =
     data\<lparr>opt_files := orElse (opt_files data)
            (findByIn file_id (note_fileIds targetNote) (driveFilesRepository env)),
          opt_name := (if opt_name data = None then note_name targetNote else opt_name data),
          opt_visibleUsers := orElse (opt_visibleUsers data)
            (findByIn user_id (note_visibleUserIds targetNote) (usersRepository env)),
          opt_reactionAcceptance :=
            (if opt_reactionAcceptance data = None then note_reactionAcceptance targetNote
             else opt_reactionAcceptance data)\<rparr>"

definition inheritFromTarget :: "Env \<Rightarrow> string \<Rightarrow> MiNote \<Rightarrow> OptionT \<Rightarrow> error + OptionT" where
  "inheritFromTarget env targetId targetNote data =
     bindE (inheritRenote env targetNote (inheritScope env targetId targetNote data)) (\<lambda>d1.
     bindE (inheritReply env targetNote d1) (\<lambda>d2.
     bindE (inheritPoll env targetId targetNote d2) (\<lambda>d3.
     Inr (inheritRest env targetNote d3))))"

text \<open>
  \<^verbatim>\<open>if (data.channel != null)\<close>, three times: a note in a channel is public, has no
  visible users and is local only.
\<close>

definition forceChannelScope :: "OptionT \<Rightarrow> OptionT" where
  "forceChannelScope data =
     (if opt_channel data \<noteq> None
      then data\<lparr>opt_visibility := Some ''public'', opt_visibleUsers := Some [],
                opt_localOnly := Some True\<rparr>
      else data)"

text \<open>Everything up to the fetch of the instance settings.\<close>

definition prepare :: "Env \<Rightarrow> string \<Rightarrow> OptionT \<Rightarrow> error + MiNote \<times> OptionT" where
  "prepare env targetId data =
     bindE (findOneByOrFail (\<lambda>n. note_id n = targetId) (notesRepository env)) (\<lambda>targetNote.
     bindE (inheritFromTarget env targetId targetNote
              (replyInsideChannel env (replyOutsideChannel env
                 (inheritReplyAndChannel env targetNote data)))) (\<lambda>d.
     Inr (targetNote, forceChannelScope d)))"

subsection \<open>edit: visibility rules\<close>

text \<open>\<^verbatim>\<open>data.cw ?? data.text ?? ''\<close>: the text that is searched for keywords.\<close>

definition cwOrText :: "OptionT \<Rightarrow> jsstring" where
  "cwOrText data =
     (case opt_cw data of
        Some c \<Rightarrow> c
      | None \<Rightarrow> (case opt_text data of Some t \<Rightarrow> t | None \<Rightarrow> []))"

definition downgradeSensitive :: "Env \<Rightarrow> MiUser \<Rightarrow> OptionT \<Rightarrow> OptionT" where
  "downgradeSensitive env user data =
     (if opt_visibility data = Some ''public'' \<and> opt_channel data = None
      then (if isKeyWordIncluded env (cwOrText data) (sensitiveWords (metaFetch env))
            then data\<lparr>opt_visibility := Some ''home''\<rparr>
            else if canPublicNote env (user_id user) = False
            then data\<lparr>opt_visibility := Some ''home''\<rparr>
            else data)
      else data)"

definition rejectProhibited :: "Env \<Rightarrow> OptionT \<Rightarrow> error + OptionT" where
  "rejectProhibited env data =
     (if isKeyWordIncluded env (cwOrText data) (prohibitedWords (metaFetch env))
      then Inl ContainsProhibitedWordsError
      else Inr data)"

definition downgradeSilenced :: "Env \<Rightarrow> MiUser \<Rightarrow> OptionT \<Rightarrow> OptionT" where
  "downgradeSilenced env user data =
     (let inSilencedInstance = isSilencedHost env (silencedHosts (metaFetch env)) (user_host user)
      in if opt_visibility data = Some ''public'' \<and> inSilencedInstance \<and> user_host user \<noteq> None
         then data\<lparr>opt_visibility := Some ''home''\<rparr>
         else data)"

text \<open>The \<^verbatim>\<open>switch (data.renote.visibility)\<close>; it has no default case.\<close>

definition renoteVisibility :: "MiUser \<Rightarrow> OptionT \<Rightarrow> error + OptionT" where
  "renoteVisibility user data =
     (case opt_renote data of
        None \<Rightarrow> Inr data
      | Some renote \<Rightarrow>
          if note_visibility renote = ''public'' then Inr data
          else if note_visibility renote = ''home''
          then (if opt_visibility data = Some ''public''
                then Inr (data\<lparr>opt_visibility := Some ''home''\<rparr>)
                else Inr data)
          else if note_visibility renote = ''followers''
          then (if note_userId renote \<noteq> user_id user
                then Inl (JsError ''Error'' ''Renote target is not public or home'')
                else Inr (data\<lparr>opt_visibility := Some ''followers''\<rparr>))
          else if note_visibility renote = ''specified''
          then Inl (JsError ''Error'' ''Renote target is not public or home'')
          else Inr data)"

definition isQuote :: "OptionT \<Rightarrow> bool" where
  "isQuote note =
     (opt_renote note \<noteq> None \<and>
      (truthy (opt_text note) \<or> truthy (opt_cw note) \<or> truthy (opt_files note)
       \<or> opt_poll note \<noteq> None))"

definition checkBlocking :: "Env \<Rightarrow> MiUser \<Rightarrow> OptionT \<Rightarrow> error + OptionT" where
  "checkBlocking env user data =
     (case opt_renote data of
        None \<Rightarrow> Inr data
      | Some renote \<Rightarrow>
          if \<not> isQuote data \<and> note_userHost renote = None
             \<and> note_userId renote \<noteq> user_id user
             \<and> checkBlocked env (note_userId renote) (user_id user)
          then Inl (JsError ''Error'' ''blocked'')
          else Inr data)"

text \<open>
  A reply to a note that is not public is at most \<^verbatim>\<open>home\<close>; a renote of or a reply to
  a local-only note outside a channel is local only.
\<close>

definition replyScope :: "OptionT \<Rightarrow> OptionT" where
  "replyScope data =
     (let d1 = (case opt_reply data of
                  None \<Rightarrow> data
                | Some reply \<Rightarrow>
                    if note_visibility reply \<noteq> ''public'' \<and> opt_visibility data = Some ''public''
                    then data\<lparr>opt_visibility := Some ''home''\<rparr> else data);
          d2 = (case opt_renote d1 of
                  None \<Rightarrow> d1
                | Some renote \<Rightarrow>
                    if note_localOnly renote \<and> opt_channel d1 = None
                    then d1\<lparr>opt_localOnly := Some True\<rparr> else d1)
      in case opt_reply d2 of
           None \<Rightarrow> d2
         | Some reply \<Rightarrow>
             if note_localOnly reply \<and> opt_channel d2 = None
             then d2\<lparr>opt_localOnly := Some True\<rparr> else d2)"

definition resolveVisibility :: "Env \<Rightarrow> MiUser \<Rightarrow> OptionT \<Rightarrow> error + OptionT" where
  "resolveVisibility env user data =
     bindE (rejectProhibited env (downgradeSensitive env user data)) (\<lambda>d1.
     bindE (renoteVisibility user (downgradeSilenced env user d1)) (\<lambda>d2.
     bindE (checkBlocking env user d2) (\<lambda>d3.
     Inr (replyScope d3))))"

subsection \<open>edit: text, tags, emojis and mentions\<close>

text \<open>
  \<^verbatim>\<open>data.text\<close> is cut to \<^verbatim>\<open>DB_MAX_NOTE_TEXT_LENGTH\<close> code units and trimmed; an
  empty or absent text becomes \<^verbatim>\<open>null\<close>.
\<close>

definition normalizeText :: "Env \<Rightarrow> OptionT \<Rightarrow> OptionT" where
  "normalizeText env data =
     (case opt_text data of
        None \<Rightarrow> data\<lparr>opt_text := None\<rparr>
      | Some t \<Rightarrow>
          if t = [] then data\<lparr>opt_text := None\<rparr>
          else data\<lparr>opt_text := Some (trim
                 (if length t > DB_MAX_NOTE_TEXT_LENGTH env
                  then take (DB_MAX_NOTE_TEXT_LENGTH env) t else t))\<rparr>)"

text \<open>\<^verbatim>\<open>Array.prototype.findIndex\<close>, \<open>-1\<close> when nothing matches.\<close>

fun findIndex :: "('a \<Rightarrow> bool) \<Rightarrow> 'a list \<Rightarrow> int" where
  "findIndex p [] = - 1"
| "findIndex p (x # xs) =
     (if p x then 0 else (let i = findIndex p xs in if i < 0 then - 1 else i + 1))"

text \<open>
  \<^verbatim>\<open>extractMentionedUsers\<close>: a mention that does not resolve is dropped, and of several
  users with one id the first is kept.
\<close>

definition extractMentionedUsers :: "Env \<Rightarrow> MiUser \<Rightarrow> MfmNode list \<Rightarrow> MiUser list" where
  "extractMentionedUsers env user tokens =
     (let mentions = extractMentions env tokens;
          mentionedUsers = List.map_filter
            (\<lambda>m. resolveUser env (fst m) (case snd m of Some h \<Rightarrow> Some h | None \<Rightarrow> user_host user))
            mentions
      in map snd (filter
           (\<lambda>iu. int (fst iu) = findIndex (\<lambda>u2. user_id (snd iu) = user_id u2) mentionedUsers)
           (enumerate 0 mentionedUsers)))"

definition combinedTokens :: "Env \<Rightarrow> OptionT \<Rightarrow> MfmNode list" where
  "combinedTokens env data =
     (let tokens = (case opt_text data of
                      None \<Rightarrow> [] | Some t \<Rightarrow> if t = [] then [] else mfmParse env t);
          cwTokens = (case opt_cw data of
                        None \<Rightarrow> [] | Some c \<Rightarrow> if c = [] then [] else mfmParse env c);
          choiceTokens = (case opt_poll data of
                            None \<Rightarrow> []
                          | Some poll \<Rightarrow> concat (map (mfmParse env) (poll_choices poll)))
      in tokens @ cwTokens @ choiceTokens)"

text \<open>
  The tags, emojis and mentioned users before the caps: what the payload supplies, and
  what the parsed text yields for each one it does not supply.
\<close>

definition analyzeContent ::
  "Env \<Rightarrow> MiUser \<Rightarrow> OptionT \<Rightarrow> jsstring list \<times> jsstring list \<times> MiUser list" where
  "analyzeContent env user data =
     (case (opt_apHashtags data, opt_apEmojis data, opt_apMentions data) of
        (Some tags, Some emojis, Some mentionedUsers) \<Rightarrow> (tags, emojis, mentionedUsers)
      | _ \<Rightarrow>
          (let toks = combinedTokens env data
           in ((case opt_apHashtags data of Some t \<Rightarrow> t | None \<Rightarrow> extractHashtags env toks),
               (case opt_apEmojis data of Some e \<Rightarrow> e
                | None \<Rightarrow> extractCustomEmojisFromMfm env toks),
               (case opt_apMentions data of Some m \<Rightarrow> m
                | None \<Rightarrow> extractMentionedUsers env user toks))))"

text \<open>
  \<^verbatim>\<open>tags.filter(tag => Array.from(tag).length <= 128).splice(0, 32)\<close>; \<^verbatim>\<open>splice\<close>
  returns the elements it removes, the first 32.
\<close>

definition capTags :: "jsstring list \<Rightarrow> jsstring list" where
  "capTags tags = take 32 (filter (\<lambda>tag. codePointLength tag \<le> 128) tags)"

text \<open>The author of the replied-to note is mentioned, unless it is the acting user.\<close>

definition addReplyAuthor :: "Env \<Rightarrow> MiUser \<Rightarrow> OptionT \<Rightarrow> MiUser list \<Rightarrow> error + MiUser list" where
  "addReplyAuthor env user data mentionedUsers =
     (case opt_reply data of
        None \<Rightarrow> Inr mentionedUsers
      | Some reply \<Rightarrow>
          if user_id user \<noteq> note_userId reply
             \<and> note_userId reply \<notin> set (map user_id mentionedUsers)
          then bindE (findOneByOrFail (\<lambda>u. user_id u = note_userId reply) (usersRepository env))
                 (\<lambda>u. Inr (mentionedUsers @ [u]))
          else Inr mentionedUsers)"

text \<open>
  \<^verbatim>\<open>for (const u of data.visibleUsers) if (!mentionedUsers.some(...)) mentionedUsers.push(u)\<close>
\<close>

fun pushVisibleUsers :: "MiUser list \<Rightarrow> MiUser list \<Rightarrow> MiUser list" where
  "pushVisibleUsers mentionedUsers [] = mentionedUsers"
| "pushVisibleUsers mentionedUsers (u # us) =
     pushVisibleUsers
       (if user_id u \<notin> set (map user_id mentionedUsers) then mentionedUsers @ [u]
        else mentionedUsers) us"

text \<open>
  The block for \<^verbatim>\<open>specified\<close> visibility: the visible users are mentioned, and the
  author of the replied-to note becomes a visible user. The arrays of the payload are
  taken to be distinct objects.
\<close>

definition specifiedAudience ::
  "Env \<Rightarrow> OptionT \<Rightarrow> MiUser list \<Rightarrow> error + OptionT \<times> MiUser list" where
  "specifiedAudience env data mentionedUsers =
     (if opt_visibility data = Some ''specified''
      then (case opt_visibleUsers data of
              None \<Rightarrow> Inl (JsError ''Error'' ''invalid param'')
            | Some visibleUsers \<Rightarrow>
                (let ms = pushVisibleUsers mentionedUsers visibleUsers
                 in case opt_reply data of
                      None \<Rightarrow> Inr (data, ms)
                    | Some reply \<Rightarrow>
                        if note_userId reply \<notin> set (map user_id visibleUsers)
                        then bindE (findOneByOrFail (\<lambda>u. user_id u = note_userId reply)
                                      (usersRepository env))
                               (\<lambda>u. Inr (data\<lparr>opt_visibleUsers := Some (visibleUsers @ [u])\<rparr>, ms))
                        else Inr (data, ms)))
      else Inr (data, mentionedUsers))"

subsection \<open>edit: the record\<close>

text \<open>
  \<^verbatim>\<open>new MiNote({...})\<close>. By now \<^verbatim>\<open>data.visibility\<close> and \<^verbatim>\<open>data.localOnly\<close> are never
  null, \<open>inheritFromTarget\<close> having filled them in from the target note; the \<open>None\<close>
  cases below repeat that default. \<open>uri\<close>, \<open>url\<close>, \<open>mentions\<close> and
  \<open>mentionedRemoteUsers\<close> are assigned after the construction.
\<close>

definition mentionedRemoteUsersOf :: "Env \<Rightarrow> MiUser list \<Rightarrow> IMentionedRemoteUser list" where
  "mentionedRemoteUsersOf env mentionedUsers =
     (let profiles = findByIn fst (map user_id mentionedUsers) (userProfilesRepository env)
      in map (\<lambda>u. \<lparr>mru_uri = user_uri u,
                    mru_url = (case find (\<lambda>p. fst p = user_id u) profiles of
                                 None \<Rightarrow> None | Some p \<Rightarrow> snd p),
                    mru_username = user_username u,
                    mru_host = user_host u\<rparr>)
           (filter isRemoteUser mentionedUsers))"

definition buildNote ::
  "Env \<Rightarrow> MiUser \<Rightarrow> MiNote \<Rightarrow> OptionT \<Rightarrow> jsstring list \<Rightarrow> jsstring list \<Rightarrow> MiUser list \<Rightarrow> MiNote" where
  "buildNote env user targetNote data tags emojis mentionedUsers =
     \<lparr>note_id = note_id targetNote,
      note_updatedAt = Some (dateNow env),
      note_fileIds = (case opt_files data of Some files \<Rightarrow> map file_id files | None \<Rightarrow> []),
      note_replyId = map_option note_id (opt_reply data),
      note_renoteId = map_option note_id (opt_renote data),
      note_channelId = map_option channel_id (opt_channel data),
      note_threadId = (case opt_reply data of
                         None \<Rightarrow> None
                       | Some reply \<Rightarrow>
                           if truthy (note_threadId reply) then note_threadId reply
                           else Some (note_id reply)),
      note_name = opt_name data,
      note_text = opt_text data,
      note_hasPoll = (opt_poll data \<noteq> None),
      note_cw = opt_cw data,
      note_tags = map (normalizeForSearch env) tags,
      note_emojis = emojis,
      note_userId = user_id user,
      note_localOnly = (case opt_localOnly data of
                          Some b \<Rightarrow> b | None \<Rightarrow> note_localOnly targetNote),
      note_reactionAcceptance = opt_reactionAcceptance data,
      note_visibility = (case opt_visibility data of
                           Some v \<Rightarrow> v | None \<Rightarrow> note_visibility targetNote),
      note_visibleUserIds =
        (if opt_visibility data = Some ''specified''
         then (case opt_visibleUsers data of Some us \<Rightarrow> map user_id us | None \<Rightarrow> [])
         else []),
      note_attachedFileTypes =
        (case opt_files data of Some files \<Rightarrow> map file_type files | None \<Rightarrow> []),
      note_replyUserId = map_option note_userId (opt_reply data),
      note_replyUserHost = Option.bind (opt_reply data) note_userHost,
      note_renoteUserId = map_option note_userId (opt_renote data),
      note_renoteUserHost = Option.bind (opt_renote data) note_userHost,
      note_userHost = user_host user,
      note_uri = opt_uri data,
      note_url = opt_url data,
      note_mentions =
        (if mentionedUsers \<noteq> [] then Some (map user_id mentionedUsers) else None),
      note_mentionedRemoteUsers =
        (if mentionedUsers \<noteq> [] then Some (mentionedRemoteUsersOf env mentionedUsers)
         else None)\<rparr>"

text \<open>What \<^verbatim>\<open>edit\<close> has computed when it reaches the store.\<close>

record Resolved =
  r_target :: MiNote
  r_note :: MiNote
  r_data :: OptionT
  r_tags :: "jsstring list"
  r_mentionedUsers :: "MiUser list"

text \<open>
  \<^verbatim>\<open>mentionedUsers\<close> is the array \<^verbatim>\<open>data.apMentions\<close> itself when the payload has
  one, so what is pushed to the one shows in the other.
\<close>

definition resolve :: "Env \<Rightarrow> MiUser \<Rightarrow> string \<Rightarrow> OptionT \<Rightarrow> error + Resolved" where
  "resolve env user targetId data =
     bindE (prepare env targetId data) (\<lambda>(targetNote, d0).
     bindE (resolveVisibility env user d0) (\<lambda>d1.
     (let d2 = normalizeText env d1;
          (tags0, emojis, mentioned0) = analyzeContent env user d2;
          tags = capTags tags0
      in
      bindE (addReplyAuthor env user d2 mentioned0) (\<lambda>mentioned1.
      bindE (specifiedAudience env d2 mentioned1) (\<lambda>(d3, mentionedUsers).
      (let d4 = (if opt_apMentions d3 = None then d3
                 else d3\<lparr>opt_apMentions := Some mentionedUsers\<rparr>)
       in Inr \<lparr>r_target = targetNote,
               r_note = buildNote env user targetNote d4 tags emojis mentionedUsers,
               r_data = d4, r_tags = tags, r_mentionedUsers = mentionedUsers\<rparr>))))))"

subsection \<open>edit: the store update and what follows it\<close>

text \<open>
  A duplicate-key failure of the update is rethrown as an \<^verbatim>\<open>Error\<close> named
  \<^verbatim>\<open>duplicated\<close>, any other failure as it is. After a successful update the fan-out is
  scheduled, and an edit by somebody other than the author is written to the moderation
  log.
\<close>

definition commit ::
  "Env \<Rightarrow> MiUser \<Rightarrow> Resolved \<Rightarrow> bool \<Rightarrow> MiUser option \<Rightarrow> (error + MiNote) \<times> effect list" where
  "commit env user r silent editor =
     (let note = r_note r;
          upd = NotesRepositoryUpdate (note_id note) note
      in case notesUpdate env note of
           Some e \<Rightarrow>
             if isDuplicateKeyValueError env e
             then (Inl (JsError ''duplicated'' ''Duplicated note''), [upd])
             else (Inl e, [upd])
         | None \<Rightarrow>
             (let sched = PostNoteEditedScheduled (note_id note) user (r_data r) silent
                            (r_tags r) (r_mentionedUsers r)
              in case editor of
                   None \<Rightarrow> (Inr note, [upd, sched])
                 | Some ed \<Rightarrow>
                     if note_userId note \<noteq> user_id ed
                     then (case findOneByOrFail (\<lambda>u. user_id u = note_userId note)
                                  (usersRepository env) of
                             Inl e \<Rightarrow> (Inl e, [upd, sched])
                           | Inr u \<Rightarrow>
                               (Inr note,
                                [upd, sched,
                                 ModerationLog (user_id ed) (note_id note) (note_userId note)
                                   (user_username u) (user_host u)]))
                     else (Inr note, [upd, sched])))"

definition edit ::
  "Env \<Rightarrow> MiUser \<Rightarrow> string \<Rightarrow> OptionT \<Rightarrow> bool \<Rightarrow> MiUser option \<Rightarrow> (error + MiNote) \<times> effect list" where
  "edit env user targetId data silent editor =
     (case resolve env user targetId data of
        Inl e \<Rightarrow> (Inl e, [])
      | Inr r \<Rightarrow> commit env user r silent editor)"

subsection \<open>The fan-out\<close>

text \<open>
  \<^verbatim>\<open>renderNoteOrRenoteActivity\<close>: nothing for a local-only note, an announce for a
  renote that is not a quote, an update otherwise.
\<close>

definition renderNoteOrRenoteActivity :: "Env \<Rightarrow> OptionT \<Rightarrow> MiNote \<Rightarrow> string \<Rightarrow> Activity option" where
  "renderNoteOrRenoteActivity env data note userId =
     (if opt_localOnly data = Some True then None
      else (case opt_renote data of
              None \<Rightarrow> Some (RenderNoteUpdate (note_id note) userId)
            | Some renote \<Rightarrow>
                if \<not> isQuote data
                then Some (RenderAnnounce
                       (case note_uri renote of
                          None \<Rightarrow> configUrl env @ ''/notes/'' @ note_id renote
                        | Some uri \<Rightarrow>
                            if uri = [] then configUrl env @ ''/notes/'' @ note_id renote else uri)
                       (note_id note))
                else Some (RenderNoteUpdate (note_id note) userId)))"

text \<open>
  The author of a replied-to or renoted note is a direct recipient when the note says its
  author is remote and the user found under that id is remote.
\<close>

definition remoteAuthorRecipe :: "Env \<Rightarrow> MiNote option \<Rightarrow> Recipe list" where
  "remoteAuthorRecipe env n =
     (case n of
        None \<Rightarrow> []
      | Some m \<Rightarrow>
          if note_userHost m \<noteq> None
          then (case find (\<lambda>u. user_id u = note_userId m) (usersRepository env) of
                  None \<Rightarrow> []
                | Some u \<Rightarrow> if isRemoteUser u then [DirectRecipe (user_id u)] else [])
          else [])"

text \<open>The region \<^verbatim>\<open>AP deliver\<close>, entered when the acting user is local.\<close>

definition apDeliver :: "Env \<Rightarrow> MiNote \<Rightarrow> MiUser \<Rightarrow> OptionT \<Rightarrow> MiUser list \<Rightarrow> effect list" where
  "apDeliver env note user data mentionedUsers =
     (let noteActivity = renderNoteOrRenoteActivity env data note (user_id user);
          recipes = map (\<lambda>u. DirectRecipe (user_id u)) (filter isRemoteUser mentionedUsers)
                    @ remoteAuthorRecipe env (opt_reply data)
                    @ remoteAuthorRecipe env (opt_renote data)
                    @ (if note_visibility note \<in> set [''public'', ''home'', ''followers'']
                       then [FollowersRecipe] else [])
      in (if note_visibility note \<in> set [''public'']
          then [DeliverToRelays (user_id user) noteActivity] else [])
         @ [DeliverManagerExecute (user_id user) noteActivity recipes])"

text \<open>
  \<^verbatim>\<open>postNoteEdited\<close>. The calls are listed in the order of the source; those the source
  starts without awaiting them may complete in another order. The first component is the
  error that ends the function early, if any.
\<close>

definition postNoteEdited ::
  "Env \<Rightarrow> MiNote \<Rightarrow> MiUser \<Rightarrow> OptionT \<Rightarrow> bool \<Rightarrow> jsstring list \<Rightarrow> MiUser list
     \<Rightarrow> error option \<times> effect list" where
  "postNoteEdited env note user data silent tags mentionedUsers =
     (let meta = metaFetch env;
          nid = note_id note;
          uid = user_id user;
          charts = NotesChartUpdate nid #
            (if enableChartsForRemoteUser meta \<or> user_host user = None
             then [PerUserNotesChartUpdate uid nid] else []);
          registerHost =
            (case user_host user of
               None \<Rightarrow> []
             | Some host \<Rightarrow> InstanceNotesCountIncrement host #
                 (if enableChartsForFederatedInstances meta
                  then [InstanceChartUpdateNote host nid] else []));
          hashtags =
            (if opt_visibility data = Some ''public'' \<or> opt_visibility data = Some ''home''
             then [UpdateHashtags uid tags] else []);
          pollExpiry =
            (case opt_poll data of
               None \<Rightarrow> []
             | Some poll \<Rightarrow>
                 (case poll_expiresAt poll of
                    None \<Rightarrow> []
                  | Some t \<Rightarrow> [EndedPollNotificationQueueAdd nid (t - dateNow env)]));
          before = charts @ registerHost @ hashtags @ pollExpiry;
          after =
            (case opt_channel data of
               None \<Rightarrow> []
             | Some channel \<Rightarrow> [ChannelUpdateLastNotedAt (channel_id channel) (dateNow env)])
            @ (if note_text note = None \<and> note_cw note = None then []
               else [SearchIndexNote nid])
      in if silent then (None, before @ after)
         else
           (let active = (if isLocalUser user then [ActiveUsersChartWrite uid] else []);
                published =
                  [PublishNotesStream nid, AddNoteToRoleTimeline nid]
                  @ map (\<lambda>w. WebhookDeliver (webhook_id w) nid)
                      (filter (\<lambda>x. webhook_userId x = uid \<and> ''note'' \<in> set (webhook_on x))
                         (getActiveWebhooks env))
                  @ (if isLocalUser user then apDeliver env note user data mentionedUsers
                     else [])
            in if opt_visibility data = Some ''specified''
               then (case opt_visibleUsers data of
                       None \<Rightarrow> (Some (JsError ''Error'' ''invalid param''), before @ active)
                     | Some visibleUsers \<Rightarrow>
                         (None,
                          before @ active
                          @ map (\<lambda>u. InsertNoteUnread (user_id u) nid True False)
                              (filter isLocalUser visibleUsers)
                          @ published @ after))
               else (None,
                     before @ active
                     @ map (\<lambda>u. InsertNoteUnread (user_id u) nid False True)
                         (filter isLocalUser mentionedUsers)
                     @ published @ after)))"

text \<open>
  \<^verbatim>\<open>NotificationManager.notify\<close>: one \<^verbatim>\<open>createNotification\<close> per queue entry, a
  renote carrying the id of the renoted note.
\<close>

definition notify :: "NotificationManager \<Rightarrow> effect list" where
  "notify nm =
     map (\<lambda>x. if reason x = Renote
               then CreateNotification (target x) Renote (nm_noteId nm) (nm_noteRenoteId nm)
                      (nm_notifier nm)
               else CreateNotification (target x) (reason x) (nm_noteId nm) None
                      (nm_notifier nm))
       (queue nm)"

fun isCreateNotification :: "effect \<Rightarrow> bool" where
  "isCreateNotification (CreateNotification t r n tn f) = True"
| "isCreateNotification _ = False"

text \<open>
  The calls of the fan-out into the federation transport, and the activity such a call
  is given (\<open>None\<close> for every other effect).
\<close>

fun isFederationCall :: "effect \<Rightarrow> bool" where
  "isFederationCall (DeliverToRelays u a) = True"
| "isFederationCall (DeliverManagerExecute u a recipes) = True"
| "isFederationCall _ = False"

fun carriedActivity :: "effect \<Rightarrow> Activity option" where
  "carriedActivity (DeliverToRelays u a) = a"
| "carriedActivity (DeliverManagerExecute u a recipes) = a"
| "carriedActivity _ = None"

subsection \<open>A small instance\<close>

text \<open>
  Three users (\<open>u1\<close> and \<open>u2\<close> local, \<open>u3\<close> remote), one channel and a handful of
  notes, used to run the definitions on concrete inputs.
\<close>

definition mkUser :: "string \<Rightarrow> string \<Rightarrow> string option \<Rightarrow> MiUser" where
  "mkUser i n h = \<lparr>user_id = i, user_username = n, user_host = h, user_uri = None\<rparr>"

definition mkNote :: "string \<Rightarrow> string \<Rightarrow> string \<Rightarrow> MiNote" where
  "mkNote i u v =
     \<lparr>note_id = i, note_updatedAt = None, note_fileIds = [], note_replyId = None,
      note_renoteId = None, note_channelId = None, note_threadId = None, note_name = None,
      note_text = None, note_hasPoll = False, note_cw = None, note_tags = [],
      note_emojis = [], note_userId = u, note_localOnly = False,
      note_reactionAcceptance = None, note_visibility = v, note_visibleUserIds = [],
      note_attachedFileTypes = [], note_replyUserId = None, note_replyUserHost = None,
      note_renoteUserId = None, note_renoteUserHost = None, note_userHost = None,
      note_uri = None, note_url = None, note_mentions = None,
      note_mentionedRemoteUsers = None\<rparr>"

definition noOption :: OptionT where
  "noOption =
     \<lparr>opt_createdAt = None, opt_name = None, opt_text = None, opt_reply = None,
      opt_renote = None, opt_files = None, opt_poll = None, opt_localOnly = None,
      opt_reactionAcceptance = None, opt_cw = None, opt_visibility = None,
      opt_visibleUsers = None, opt_channel = None, opt_apMentions = None,
      opt_apHashtags = None, opt_apEmojis = None, opt_uri = None, opt_url = None,
      opt_app = None\<rparr>"

definition alice :: MiUser where "alice = mkUser ''u1'' ''alice'' None"
definition bob :: MiUser where "bob = mkUser ''u2'' ''bob'' None"
definition carol :: MiUser where "carol = mkUser ''u3'' ''carol'' (Some ''remote.example'')"

text \<open>A keyword filter for the instance: some keyword occurs in the text.\<close>

definition sampleIsKeyWordIncluded :: "jsstring \<Rightarrow> jsstring list \<Rightarrow> bool" where
  "sampleIsKeyWordIncluded t keyWords = list_ex (\<lambda>w. sublist w t) keyWords"

definition sampleEnv :: Env where
  "sampleEnv =
     \<lparr>notesRepository =
        [mkNote ''n1'' ''u1'' ''public'', mkNote ''n2'' ''u2'' ''home'',
         mkNote ''n3'' ''u2'' ''public'', mkNote ''n4'' ''u2'' ''specified'',
         mkNote ''n5'' ''u1'' ''followers'', mkNote ''n6'' ''u2'' ''followers''],
      noteReply = (\<lambda>n. None),
      noteChannel = (\<lambda>n. None),
      channelsRepository = [\<lparr>channel_id = ''c1''\<rparr>],
      pollsRepository = [],
      driveFilesRepository = [],
      usersRepository = [alice, bob, carol],
      userProfilesRepository = [],
      notesUpdate = (\<lambda>n. None),
      isDuplicateKeyValueError = (\<lambda>e. e = QueryFailedError ''23505''),
      metaFetch = \<lparr>sensitiveWords = [], prohibitedWords = [js ''bad''], silencedHosts = [],
                   enableChartsForRemoteUser = False,
                   enableChartsForFederatedInstances = False\<rparr>,
      isKeyWordIncluded = sampleIsKeyWordIncluded,
      isSilencedHost = (\<lambda>hosts h. case h of None \<Rightarrow> False | Some x \<Rightarrow> x \<in> set hosts),
      canPublicNote = (\<lambda>u. True),
      checkBlocked = (\<lambda>a b. False),
      idServiceParse = (\<lambda>i. 0),
      dateNow = 1000,
      DB_MAX_NOTE_TEXT_LENGTH = 8192,
      mfmParse = (\<lambda>t. []),
      extractHashtags = (\<lambda>ts. []),
      extractCustomEmojisFromMfm = (\<lambda>ts. []),
      extractMentions = (\<lambda>ts. []),
      resolveUser = (\<lambda>n h. None),
      normalizeForSearch = (\<lambda>t. t),
      getActiveWebhooks = [],
      configUrl = ''https://example.test''\<rparr>"

definition homeEdit :: OptionT where
  "homeEdit = noOption\<lparr>opt_visibility := Some ''home'', opt_visibleUsers := Some [bob]\<rparr>"

definition badEdit :: OptionT where
  "badEdit = noOption\<lparr>opt_text := Some (js ''bad'')\<rparr>"

definition cwEdit :: OptionT where
  "cwEdit = noOption\<lparr>opt_text := Some (js ''bad''), opt_cw := Some (js ''cw'')\<rparr>"

definition dupEnv :: Env where
  "dupEnv = sampleEnv\<lparr>notesUpdate := (\<lambda>n. Some (QueryFailedError ''23505''))\<rparr>"

definition edited :: "string \<Rightarrow> string \<Rightarrow> string \<Rightarrow> MiNote" where
  "edited i u v = (mkNote i u v)\<lparr>note_updatedAt := Some 1000\<rparr>"

definition channelRenoteEdit :: OptionT where
  "channelRenoteEdit =
     noOption\<lparr>opt_channel := Some \<lparr>channel_id = ''c1''\<rparr>,
              opt_renote := Some (mkNote ''n2'' ''u2'' ''home''),
              opt_visibility := Some ''public''\<rparr>"

definition channelEdit :: OptionT where
  "channelEdit =
     noOption\<lparr>opt_channel := Some \<lparr>channel_id = ''c1''\<rparr>,
              opt_visibility := Some ''followers'', opt_visibleUsers := Some [bob]\<rparr>"

text \<open>
  A normaliser for the instance that agrees with \<^verbatim>\<open>normalize('NFKC').toLowerCase()\<close>
  on ASCII letters and on U+FB01, the ligature fi, whose compatibility decomposition is
  the two letters f and i.
\<close>

definition sampleNormalizeForSearch :: "jsstring \<Rightarrow> jsstring" where
  "sampleNormalizeForSearch t =
     concat (map (\<lambda>u. if u = 0xFB01 then [0x66, 0x69]
                        else if 0x41 \<le> u \<and> u \<le> 0x5A then [u + 0x20] else [u]) t)"

definition ligatureEnv :: Env where
  "ligatureEnv = sampleEnv\<lparr>normalizeForSearch := sampleNormalizeForSearch\<rparr>"

definition ligatureTagEdit :: OptionT where
  "ligatureTagEdit = noOption\<lparr>opt_apHashtags := Some [replicate 128 0xFB01]\<rparr>"

definition manyTagsEdit :: OptionT where
  "manyTagsEdit =
     noOption\<lparr>opt_apHashtags := Some (replicate 129 0x61 # replicate 40 (js ''t''))\<rparr>"

definition replyEdit :: OptionT where
  "replyEdit = noOption\<lparr>opt_reply := Some (mkNote ''n3'' ''u2'' ''public''),
                         opt_text := Some (js ''hi'')\<rparr>"

text \<open>What \<open>prepare\<close> fills in for a payload on the public note \<open>n1\<close>.\<close>

definition prepared :: "OptionT \<Rightarrow> string \<Rightarrow> OptionT" where
  "prepared d v =
     d\<lparr>opt_createdAt := Some 0, opt_visibility := Some v, opt_localOnly := Some False,
       opt_files := Some [], opt_visibleUsers := Some []\<rparr>"

definition repliedNote :: MiNote where
  "repliedNote =
     (edited ''n1'' ''u1'' ''public'')
       \<lparr>note_replyId := Some ''n3'', note_threadId := Some ''n3'',
        note_text := Some (js ''hi''), note_replyUserId := Some ''u2'',
        note_mentions := Some [''u2''], note_mentionedRemoteUsers := Some []\<rparr>"

definition localOnlyData :: OptionT where
  "localOnlyData = noOption\<lparr>opt_localOnly := Some True, opt_visibility := Some ''public'',
                             opt_visibleUsers := Some []\<rparr>"

definition renoteHomeEdit :: OptionT where
  "renoteHomeEdit = noOption\<lparr>opt_renote := Some (mkNote ''n2'' ''u2'' ''home'')\<rparr>"

definition renoteSpecifiedEdit :: OptionT where
  "renoteSpecifiedEdit = noOption\<lparr>opt_renote := Some (mkNote ''n4'' ''u2'' ''specified'')\<rparr>"

definition renoteOwnFollowersEdit :: OptionT where
  "renoteOwnFollowersEdit = noOption\<lparr>opt_renote := Some (mkNote ''n5'' ''u1'' ''followers'')\<rparr>"

definition renoteForeignFollowersEdit :: OptionT where
  "renoteForeignFollowersEdit = noOption\<lparr>opt_renote := Some (mkNote ''n6'' ''u2'' ''followers'')\<rparr>"

definition specifiedEdit :: OptionT where
  "specifiedEdit = noOption\<lparr>opt_visibility := Some ''specified'', opt_visibleUsers := Some []\<rparr>"

definition directEdit :: OptionT where
  "directEdit = noOption\<lparr>opt_visibility := Some ''direct''\<rparr>"

definition specifiedReplyEdit :: OptionT where
  "specifiedReplyEdit =
     noOption\<lparr>opt_visibility := Some ''specified'', opt_visibleUsers := Some [carol],
              opt_reply := Some (mkNote ''n3'' ''u2'' ''public'')\<rparr>"

definition specifiedReplyNote :: MiNote where
  "specifiedReplyNote =
     (edited ''n1'' ''u1'' ''specified'')
       \<lparr>note_replyId := Some ''n3'', note_threadId := Some ''n3'',
        note_replyUserId := Some ''u2'', note_visibleUserIds := [''u3'', ''u2''],
        note_mentions := Some [''u2'', ''u3''],
        note_mentionedRemoteUsers :=
          Some [\<lparr>mru_uri = None, mru_url = None, mru_username = ''carol'',
                 mru_host = Some ''remote.example''\<rparr>]\<rparr>"

section \<open>Properties\<close>

subsection \<open>Auxiliary facts\<close>

subsubsection \<open>The notification queue\<close>

lemma find_filter_conv: "find P xs = (case filter P xs of [] \<Rightarrow> None | x # _ \<Rightarrow> Some x)"
  by (induction xs) auto

lemma filter_absent: "t \<notin> target ` set xs \<Longrightarrow> filter (\<lambda>x. target x = t) xs = []"
  by (induction xs) auto

lemma setReason_other:
  "t' \<noteq> t \<Longrightarrow> filter (\<lambda>x. target x = t) (setReason t' r xs) = filter (\<lambda>x. target x = t) xs"
  by (induction xs) auto

lemma setReason_same:
  "distinct (map target xs) \<Longrightarrow> filter (\<lambda>x. target x = t) xs = y # ys \<Longrightarrow>
   filter (\<lambda>x. target x = t) (setReason t r xs) = [y\<lparr>reason := r\<rparr>]"
proof (induction xs)
  case Nil then show ?case by simp
next
  case (Cons x xs)
  show ?case
  proof (cases "target x = t")
    case True
    with Cons.prems have "filter (\<lambda>x. target x = t) xs = []"
      by (simp add: filter_absent)
    with True Cons.prems show ?thesis by simp
  next
    case False
    with Cons show ?thesis by simp
  qed
qed

lemma setReason_targets: "map target (setReason t r xs) = map target xs"
  by (induction xs) auto

lemma filter_distinct_single:
  "distinct (map target xs) \<Longrightarrow> filter (\<lambda>x. target x = t) xs = y # ys \<Longrightarrow> ys = []"
proof (induction xs)
  case Nil then show ?case by simp
next
  case (Cons x xs)
  show ?case
  proof (cases "target x = t")
    case True
    with Cons.prems have "filter (\<lambda>x. target x = t) xs = []"
      by (simp add: filter_absent)
    with True Cons.prems show ?thesis by simp
  next
    case False
    with Cons show ?thesis by simp
  qed
qed

lemma push_notifier: "nm_notifier (push nm t r) = nm_notifier nm"
  by (simp add: push_def split: option.splits)

lemma push_distinct:
  "distinct (map target (queue nm)) \<Longrightarrow> distinct (map target (queue (push nm t r)))"
  by (auto simp: push_def setReason_targets find_None_iff split: option.splits)

lemma push_filter:
  assumes "distinct (map target (queue nm))"
  shows "filter (\<lambda>x. target x = t) (queue (push nm t' r)) =
    (if t' \<noteq> t \<or> t' = nm_notifier nm then filter (\<lambda>x. target x = t) (queue nm)
     else case filter (\<lambda>x. target x = t) (queue nm) of
            [] \<Rightarrow> [\<lparr>target = t, reason = r\<rparr>]
          | x # _ \<Rightarrow> [x\<lparr>reason := (if r \<noteq> Mention then r else reason x)\<rparr>])"
proof (cases "t' \<noteq> t \<or> t' = nm_notifier nm")
  case True
  then show ?thesis
    by (auto simp: push_def setReason_other split: option.splits)
next
  case False
  then have eq: "t' = t" and ne: "nm_notifier nm \<noteq> t" by auto
  show ?thesis
  proof (cases "filter (\<lambda>x. target x = t) (queue nm)")
    case Nil
    then show ?thesis using eq ne
      by (simp add: push_def find_filter_conv)
  next
    case (Cons y ys)
    with assms have ys: "ys = []" by (rule filter_distinct_single)
    show ?thesis
    proof (cases "r = Mention")
      case True
      then show ?thesis using eq ne Cons ys
        by (simp add: push_def find_filter_conv)
    next
      case False
      then show ?thesis using eq ne Cons setReason_same[OF assms Cons, of r]
        by (simp add: push_def find_filter_conv)
    qed
  qed
qed

lemma pushAll_filter:
  assumes "distinct (map target (queue nm))"
  shows "filter (\<lambda>x. target x = t) (queue (pushAll nm ps)) =
    (if t = nm_notifier nm then filter (\<lambda>x. target x = t) (queue nm)
     else case filter (\<lambda>x. target x = t) (queue nm) of
        [] \<Rightarrow> (case triggers t ps of [] \<Rightarrow> [] | r # rs \<Rightarrow> [\<lparr>target = t, reason = mergeReason r rs\<rparr>])
      | x # _ \<Rightarrow> [x\<lparr>reason := mergeReason (reason x) (triggers t ps)\<rparr>])"
  using assms
proof (induction ps arbitrary: nm)
  case Nil
  then show ?case
    by (auto simp: triggers_def split: list.splits dest: filter_distinct_single)
next
  case (Cons p ps)
  obtain t' r where p: "p = (t', r)" by (cases p)
  have d: "distinct (map target (queue (push nm t' r)))"
    using Cons.prems by (rule push_distinct)
  show ?case
    unfolding p pushAll.simps Cons.IH[OF d] push_notifier push_filter[OF Cons.prems]
    by (auto simp: triggers_def split: list.splits)
qed

subsubsection \<open>Defaulting\<close>

lemma bindE_Inr_iff: "bindE m f = Inr y \<longleftrightarrow> (\<exists>x. m = Inr x \<and> f x = Inr y)"
  by (cases m) (simp_all add: bindE_def)

lemma bindE_Inl [simp]: "bindE (Inl e) f = Inl e"
  by (simp add: bindE_def)

lemma bindE_Inr [simp]: "bindE (Inr x) f = f x"
  by (simp add: bindE_def)

text \<open>What each defaulting step leaves unchanged.\<close>

lemma inheritReplyAndChannel_keeps:
  "opt_cw (inheritReplyAndChannel env tn d) = opt_cw d"
  "opt_text (inheritReplyAndChannel env tn d) = opt_text d"
  "opt_visibility (inheritReplyAndChannel env tn d) = opt_visibility d"
  "opt_visibleUsers (inheritReplyAndChannel env tn d) = opt_visibleUsers d"
  "opt_apHashtags (inheritReplyAndChannel env tn d) = opt_apHashtags d"
  "opt_localOnly (inheritReplyAndChannel env tn d) = opt_localOnly d"
  "opt_renote (inheritReplyAndChannel env tn d) = opt_renote d"
  by (simp_all add: inheritReplyAndChannel_def Let_def)

lemma replyOutsideChannel_keeps:
  "opt_cw (replyOutsideChannel env d) = opt_cw d"
  "opt_text (replyOutsideChannel env d) = opt_text d"
  "opt_visibility (replyOutsideChannel env d) = opt_visibility d"
  "opt_visibleUsers (replyOutsideChannel env d) = opt_visibleUsers d"
  "opt_apHashtags (replyOutsideChannel env d) = opt_apHashtags d"
  "opt_localOnly (replyOutsideChannel env d) = opt_localOnly d"
  "opt_renote (replyOutsideChannel env d) = opt_renote d"
  by (simp_all add: replyOutsideChannel_def split: option.splits)

lemma replyInsideChannel_keeps:
  "opt_cw (replyInsideChannel env d) = opt_cw d"
  "opt_text (replyInsideChannel env d) = opt_text d"
  "opt_visibility (replyInsideChannel env d) = opt_visibility d"
  "opt_visibleUsers (replyInsideChannel env d) = opt_visibleUsers d"
  "opt_apHashtags (replyInsideChannel env d) = opt_apHashtags d"
  "opt_localOnly (replyInsideChannel env d) = opt_localOnly d"
  "opt_renote (replyInsideChannel env d) = opt_renote d"
  by (simp_all add: replyInsideChannel_def split: option.splits)

lemma inheritScope_keeps:
  "opt_cw (inheritScope env tid tn d) = opt_cw d"
  "opt_text (inheritScope env tid tn d) = opt_text d"
  "opt_channel (inheritScope env tid tn d) = opt_channel d"
  "opt_apHashtags (inheritScope env tid tn d) = opt_apHashtags d"
  "opt_visibleUsers (inheritScope env tid tn d) = opt_visibleUsers d"
  "opt_visibility (inheritScope env tid tn d) = orElse (opt_visibility d) (note_visibility tn)"
  "opt_localOnly (inheritScope env tid tn d) = orElse (opt_localOnly d) (note_localOnly tn)"
  by (simp_all add: inheritScope_def)

lemma inheritRenote_keeps:
  assumes "inheritRenote env tn d = Inr d'"
  shows "opt_cw d' = opt_cw d" "opt_text d' = opt_text d" "opt_channel d' = opt_channel d"
    "opt_apHashtags d' = opt_apHashtags d" "opt_visibleUsers d' = opt_visibleUsers d"
    "opt_visibility d' = opt_visibility d" "opt_localOnly d' = opt_localOnly d"
  using assms by (auto simp: inheritRenote_def bindE_Inr_iff split: if_splits)

lemma inheritReply_keeps:
  assumes "inheritReply env tn d = Inr d'"
  shows "opt_cw d' = opt_cw d" "opt_text d' = opt_text d" "opt_channel d' = opt_channel d"
    "opt_apHashtags d' = opt_apHashtags d" "opt_visibleUsers d' = opt_visibleUsers d"
    "opt_visibility d' = opt_visibility d" "opt_localOnly d' = opt_localOnly d"
  using assms by (auto simp: inheritReply_def bindE_Inr_iff split: if_splits)

lemma inheritPoll_keeps:
  assumes "inheritPoll env tid tn d = Inr d'"
  shows "opt_cw d' = opt_cw d" "opt_text d' = opt_text d" "opt_channel d' = opt_channel d"
    "opt_apHashtags d' = opt_apHashtags d" "opt_visibleUsers d' = opt_visibleUsers d"
    "opt_visibility d' = opt_visibility d" "opt_localOnly d' = opt_localOnly d"
  using assms by (auto simp: inheritPoll_def bindE_Inr_iff split: if_splits)

lemma inheritRest_keeps:
  "opt_cw (inheritRest env tn d) = opt_cw d"
  "opt_text (inheritRest env tn d) = opt_text d"
  "opt_channel (inheritRest env tn d) = opt_channel d"
  "opt_apHashtags (inheritRest env tn d) = opt_apHashtags d"
  "opt_visibility (inheritRest env tn d) = opt_visibility d"
  "opt_localOnly (inheritRest env tn d) = opt_localOnly d"
  "opt_visibleUsers (inheritRest env tn d) = orElse (opt_visibleUsers d)
           (findByIn user_id (note_visibleUserIds tn) (usersRepository env))"
  by (simp_all add: inheritRest_def)

lemma inheritFromTarget_keeps:
  assumes "inheritFromTarget env tid tn d = Inr d'"
  shows "opt_cw d' = opt_cw d"
    and "opt_text d' = opt_text d"
    and "opt_channel d' = opt_channel d"
    and "opt_apHashtags d' = opt_apHashtags d"
    and "opt_visibility d' = orElse (opt_visibility d) (note_visibility tn)"
    and "opt_localOnly d' = orElse (opt_localOnly d) (note_localOnly tn)"
    and "opt_visibleUsers d' = orElse (opt_visibleUsers d)
           (findByIn user_id (note_visibleUserIds tn) (usersRepository env))"
proof -
  from assms obtain d1 d2 d3 where
    1: "inheritRenote env tn (inheritScope env tid tn d) = Inr d1" and
    2: "inheritReply env tn d1 = Inr d2" and
    3: "inheritPoll env tid tn d2 = Inr d3" and
    4: "d' = inheritRest env tn d3"
    by (auto simp: inheritFromTarget_def bindE_Inr_iff)
  note k = inheritRest_keeps inheritPoll_keeps[OF 3] inheritReply_keeps[OF 2]
    inheritRenote_keeps[OF 1] inheritScope_keeps
  show "opt_cw d' = opt_cw d" by (simp add: 4 k)
  show "opt_text d' = opt_text d" by (simp add: 4 k)
  show "opt_channel d' = opt_channel d" by (simp add: 4 k)
  show "opt_apHashtags d' = opt_apHashtags d" by (simp add: 4 k)
  show "opt_visibility d' = orElse (opt_visibility d) (note_visibility tn)" by (simp add: 4 k)
  show "opt_localOnly d' = orElse (opt_localOnly d) (note_localOnly tn)" by (simp add: 4 k)
  show "opt_visibleUsers d' = orElse (opt_visibleUsers d)
           (findByIn user_id (note_visibleUserIds tn) (usersRepository env))" by (simp add: 4 k)
qed

lemma forceChannelScope_keeps:
  "opt_cw (forceChannelScope d) = opt_cw d"
  "opt_text (forceChannelScope d) = opt_text d"
  "opt_channel (forceChannelScope d) = opt_channel d"
  "opt_apHashtags (forceChannelScope d) = opt_apHashtags d"
  "opt_visibility (forceChannelScope d) =
     (if opt_channel d \<noteq> None then Some ''public'' else opt_visibility d)"
  "opt_localOnly (forceChannelScope d) =
     (if opt_channel d \<noteq> None then Some True else opt_localOnly d)"
  "opt_visibleUsers (forceChannelScope d) =
     (if opt_channel d \<noteq> None then Some [] else opt_visibleUsers d)"
  by (simp_all add: forceChannelScope_def)

lemma findOneByOrFail_Inr: "findOneByOrFail p rows = Inr x \<longleftrightarrow> find p rows = Some x"
  by (simp add: findOneByOrFail_def split: option.splits)

lemma prepare_facts:
  assumes "prepare env tid d = Inr (tn, d0)"
  shows "find (\<lambda>n. note_id n = tid) (notesRepository env) = Some tn"
    and "opt_cw d0 = opt_cw d"
    and "opt_text d0 = opt_text d"
    and "opt_apHashtags d0 = opt_apHashtags d"
    and "opt_visibility d0 =
           (if opt_channel d0 \<noteq> None then Some ''public''
            else orElse (opt_visibility d) (note_visibility tn))"
    and "opt_localOnly d0 =
           (if opt_channel d0 \<noteq> None then Some True
            else orElse (opt_localOnly d) (note_localOnly tn))"
    and "opt_visibleUsers d0 =
           (if opt_channel d0 \<noteq> None then Some []
            else orElse (opt_visibleUsers d)
                   (findByIn user_id (note_visibleUserIds tn) (usersRepository env)))"
proof -
  let ?c = "replyInsideChannel env (replyOutsideChannel env (inheritReplyAndChannel env tn d))"
  from assms obtain d' where
    t: "findOneByOrFail (\<lambda>n. note_id n = tid) (notesRepository env) = Inr tn" and
    i: "inheritFromTarget env tid tn ?c = Inr d'" and
    f: "d0 = forceChannelScope d'"
    by (auto simp: prepare_def bindE_Inr_iff)
  note k = forceChannelScope_keeps inheritFromTarget_keeps[OF i] replyInsideChannel_keeps
    replyOutsideChannel_keeps inheritReplyAndChannel_keeps
  show "find (\<lambda>n. note_id n = tid) (notesRepository env) = Some tn"
    using t by (simp add: findOneByOrFail_Inr)
  show "opt_cw d0 = opt_cw d" by (simp add: f k)
  show "opt_text d0 = opt_text d" by (simp add: f k)
  show "opt_apHashtags d0 = opt_apHashtags d" by (simp add: f k)
  show "opt_visibility d0 =
           (if opt_channel d0 \<noteq> None then Some ''public''
            else orElse (opt_visibility d) (note_visibility tn))" by (simp add: f k)
  show "opt_localOnly d0 =
           (if opt_channel d0 \<noteq> None then Some True
            else orElse (opt_localOnly d) (note_localOnly tn))"
    by (simp add: f k)
  show "opt_visibleUsers d0 =
           (if opt_channel d0 \<noteq> None then Some []
            else orElse (opt_visibleUsers d)
                   (findByIn user_id (note_visibleUserIds tn) (usersRepository env)))"
    by (simp add: f k)
qed

lemma prepare_cwOrText: "prepare env tid d = Inr (tn, d0) \<Longrightarrow> cwOrText d0 = cwOrText d"
  using prepare_facts(2,3)[of env tid d tn d0] by (simp add: cwOrText_def split: option.splits)

subsubsection \<open>The visibility rules\<close>

text \<open>Each rule as an update of the one field it writes.\<close>

lemma downgradeSensitive_frame:
  "downgradeSensitive env user d = d\<lparr>opt_visibility :=
     (if opt_visibility d = Some ''public'' \<and> opt_channel d = None
         \<and> (isKeyWordIncluded env (cwOrText d) (sensitiveWords (metaFetch env))
            \<or> \<not> canPublicNote env (user_id user))
      then Some ''home'' else opt_visibility d)\<rparr>"
  by (simp add: downgradeSensitive_def)

lemma cwOrText_visibility [simp]: "cwOrText (d\<lparr>opt_visibility := v\<rparr>) = cwOrText d"
  by (simp add: cwOrText_def split: option.splits)

lemma rejectProhibited_Inr:
  "rejectProhibited env d = Inr d' \<longleftrightarrow>
     d' = d \<and> \<not> isKeyWordIncluded env (cwOrText d) (prohibitedWords (metaFetch env))"
  by (auto simp: rejectProhibited_def)

lemma downgradeSilenced_frame:
  "downgradeSilenced env user d = d\<lparr>opt_visibility :=
     (if opt_visibility d = Some ''public''
         \<and> isSilencedHost env (silencedHosts (metaFetch env)) (user_host user)
         \<and> user_host user \<noteq> None
      then Some ''home'' else opt_visibility d)\<rparr>"
  by (simp add: downgradeSilenced_def Let_def)

lemma renoteVisibility_frame:
  assumes "renoteVisibility user d = Inr d'"
  shows "d' = d\<lparr>opt_visibility :=
     (case opt_renote d of
        None \<Rightarrow> opt_visibility d
      | Some rn \<Rightarrow>
          if note_visibility rn = ''followers'' then Some ''followers''
          else if note_visibility rn = ''home'' \<and> opt_visibility d = Some ''public''
          then Some ''home'' else opt_visibility d)\<rparr>"
  using assms by (auto simp: renoteVisibility_def split: option.splits if_splits)

lemma renoteVisibility_ok:
  assumes "renoteVisibility user d = Inr d'" "opt_renote d = Some rn"
  shows "note_visibility rn \<noteq> ''specified''"
    and "note_visibility rn = ''followers'' \<Longrightarrow> note_userId rn = user_id user"
  using assms by (auto simp: renoteVisibility_def split: option.splits if_splits)

lemma checkBlocking_Inr: "checkBlocking env user d = Inr d' \<Longrightarrow> d' = d"
  by (auto simp: checkBlocking_def split: option.splits if_splits)

lemma replyScope_frame:
  "replyScope d = d\<lparr>opt_visibility := opt_visibility (replyScope d),
                     opt_localOnly := opt_localOnly (replyScope d)\<rparr>"
  by (simp add: replyScope_def Let_def split: option.splits)

lemma replyScope_visibility:
  "opt_visibility (replyScope d) =
     (case opt_reply d of
        None \<Rightarrow> opt_visibility d
      | Some rp \<Rightarrow> if note_visibility rp \<noteq> ''public'' \<and> opt_visibility d = Some ''public''
                   then Some ''home'' else opt_visibility d)"
  by (simp add: replyScope_def Let_def split: option.splits)

lemma replyScope_localOnly:
  "opt_localOnly d = Some True \<Longrightarrow> opt_localOnly (replyScope d) = Some True"
  by (simp add: replyScope_def Let_def split: option.splits)

lemma resolveVisibility_steps:
  assumes "resolveVisibility env user d = Inr d'"
  obtains d2 where
    "\<not> isKeyWordIncluded env (cwOrText d) (prohibitedWords (metaFetch env))"
    "renoteVisibility user (downgradeSilenced env user (downgradeSensitive env user d)) = Inr d2"
    "checkBlocking env user d2 = Inr d2"
    "d' = replyScope d2"
proof -
  from assms obtain d1 d2 d3 where
    1: "rejectProhibited env (downgradeSensitive env user d) = Inr d1" and
    2: "renoteVisibility user (downgradeSilenced env user d1) = Inr d2" and
    3: "checkBlocking env user d2 = Inr d3" and
    4: "d' = replyScope d3"
    by (auto simp: resolveVisibility_def bindE_Inr_iff)
  from 1 have d1: "d1 = downgradeSensitive env user d"
    and np: "\<not> isKeyWordIncluded env (cwOrText d) (prohibitedWords (metaFetch env))"
    by (simp_all add: rejectProhibited_Inr downgradeSensitive_frame)
  from 3 have d3: "d3 = d2" by (rule checkBlocking_Inr)
  show thesis
    using that[of d2] np 2 3 4 by (simp add: d1 d3)
qed

lemma downgrades_frame:
  "downgradeSilenced env user (downgradeSensitive env user d) =
     d\<lparr>opt_visibility :=
         opt_visibility (downgradeSilenced env user (downgradeSensitive env user d))\<rparr>"
  by (simp add: downgradeSilenced_def downgradeSensitive_def Let_def)

lemma resolveVisibility_frame:
  assumes "resolveVisibility env user d = Inr d'"
  shows "\<exists>v l. d' = d\<lparr>opt_visibility := v, opt_localOnly := l\<rparr>"
proof -
  from assms obtain d2 where
    r: "renoteVisibility user (downgradeSilenced env user (downgradeSensitive env user d)) = Inr d2"
    and e: "d' = replyScope d2"
    by (rule resolveVisibility_steps)
  obtain a where
    x: "downgradeSilenced env user (downgradeSensitive env user d) = d\<lparr>opt_visibility := a\<rparr>"
    using downgrades_frame[of env user d] by blast
  from renoteVisibility_frame[OF r] obtain b where "d2 = d\<lparr>opt_visibility := b\<rparr>"
    unfolding x by simp
  moreover obtain v l where "replyScope d2 = d2\<lparr>opt_visibility := v, opt_localOnly := l\<rparr>"
    using replyScope_frame[of d2] by blast
  ultimately have "d' = d\<lparr>opt_visibility := v, opt_localOnly := l\<rparr>"
    by (simp add: e)
  then show ?thesis by blast
qed

lemma resolveVisibility_visibility:
  assumes "resolveVisibility env user d = Inr d'"
  shows "opt_visibility d' =
    (if map_option note_visibility (opt_renote d) = Some ''followers'' then Some ''followers''
     else if opt_visibility d = Some ''public'' \<and>
             ((opt_channel d = None \<and>
                 (isKeyWordIncluded env (cwOrText d) (sensitiveWords (metaFetch env))
                  \<or> \<not> canPublicNote env (user_id user)))
              \<or> (isSilencedHost env (silencedHosts (metaFetch env)) (user_host user)
                  \<and> user_host user \<noteq> None)
              \<or> map_option note_visibility (opt_renote d) = Some ''home''
              \<or> (opt_reply d \<noteq> None
                  \<and> map_option note_visibility (opt_reply d) \<noteq> Some ''public''))
     then Some ''home'' else opt_visibility d)"
proof -
  from assms obtain d2 where
    r: "renoteVisibility user (downgradeSilenced env user (downgradeSensitive env user d)) = Inr d2"
    and e: "d' = replyScope d2"
    by (rule resolveVisibility_steps)
  let ?x = "downgradeSilenced env user (downgradeSensitive env user d)"
  have x: "opt_renote ?x = opt_renote d" "opt_reply ?x = opt_reply d"
    by (simp_all add: downgradeSilenced_frame downgradeSensitive_frame)
  have vx: "opt_visibility ?x =
     (if opt_visibility d = Some ''public'' \<and>
         ((opt_channel d = None \<and>
                 (isKeyWordIncluded env (cwOrText d) (sensitiveWords (metaFetch env))
                  \<or> \<not> canPublicNote env (user_id user)))
              \<or> (isSilencedHost env (silencedHosts (metaFetch env)) (user_host user)
                  \<and> user_host user \<noteq> None))
      then Some ''home'' else opt_visibility d)"
    by (auto simp: downgradeSilenced_frame downgradeSensitive_frame)
  have d2: "opt_renote d2 = opt_renote d" "opt_reply d2 = opt_reply d"
    "opt_visibility d2 = (case opt_renote d of
        None \<Rightarrow> opt_visibility ?x
      | Some rn \<Rightarrow>
          if note_visibility rn = ''followers'' then Some ''followers''
          else if note_visibility rn = ''home'' \<and> opt_visibility ?x = Some ''public''
          then Some ''home'' else opt_visibility ?x)"
    by (subst renoteVisibility_frame[OF r], simp add: x)+
  show ?thesis
    unfolding e replyScope_visibility d2 vx
    by (cases "opt_renote d"; cases "opt_reply d"; auto)
qed

lemma resolveVisibility_localOnly:
  assumes "resolveVisibility env user d = Inr d'" "opt_localOnly d = Some True"
  shows "opt_localOnly d' = Some True"
proof -
  from assms(1) obtain d2 where
    r: "renoteVisibility user (downgradeSilenced env user (downgradeSensitive env user d)) = Inr d2"
    and e: "d' = replyScope d2"
    by (rule resolveVisibility_steps)
  have "opt_localOnly d2 = Some True"
    by (subst renoteVisibility_frame[OF r])
       (simp add: downgradeSilenced_frame downgradeSensitive_frame assms(2))
  then show ?thesis by (simp add: e replyScope_localOnly)
qed

subsubsection \<open>The steps of a successful resolution\<close>

lemma bindE_InrE:
  assumes "bindE m f = Inr y"
  obtains x where "m = Inr x" "f x = Inr y"
  using assms by (cases m) (simp_all add: bindE_def)

lemma bindE_pair_InrE:
  assumes "bindE m (\<lambda>(a, b). f a b) = Inr y"
  obtains a b where "m = Inr (a, b)" "f a b = Inr y"
  using assms by (cases m) (auto simp: bindE_def)

lemma resolve_steps:
  assumes "resolve env user tid d = Inr r"
  obtains tn d0 d1 m1 d3 ms where
    "prepare env tid d = Inr (tn, d0)"
    "resolveVisibility env user d0 = Inr d1"
    "addReplyAuthor env user (normalizeText env d1)
       (snd (snd (analyzeContent env user (normalizeText env d1)))) = Inr m1"
    "specifiedAudience env (normalizeText env d1) m1 = Inr (d3, ms)"
    "r_target r = tn"
    "r_data r = (if opt_apMentions d3 = None then d3 else d3\<lparr>opt_apMentions := Some ms\<rparr>)"
    "r_tags r = capTags (fst (analyzeContent env user (normalizeText env d1)))"
    "r_mentionedUsers r = ms"
    "r_note r = buildNote env user tn (r_data r) (r_tags r)
                  (fst (snd (analyzeContent env user (normalizeText env d1)))) ms"
proof -
  from assms obtain p where p: "prepare env tid d = Inr p"
    and 1: "(case p of (targetNote, d0) \<Rightarrow>
     bindE (resolveVisibility env user d0) (\<lambda>d1.
     (let d2 = normalizeText env d1;
          (tags0, emojis, mentioned0) = analyzeContent env user d2;
          tags = capTags tags0
      in
      bindE (addReplyAuthor env user d2 mentioned0) (\<lambda>mentioned1.
      bindE (specifiedAudience env d2 mentioned1) (\<lambda>(d3, mentionedUsers).
      (let d4 = (if opt_apMentions d3 = None then d3
                 else d3\<lparr>opt_apMentions := Some mentionedUsers\<rparr>)
       in Inr \<lparr>r_target = targetNote,
               r_note = buildNote env user targetNote d4 tags emojis mentionedUsers,
               r_data = d4, r_tags = tags, r_mentionedUsers = mentionedUsers\<rparr>)))))) = Inr r"
    unfolding resolve_def by (rule bindE_InrE)
  obtain tn d0 where pe: "p = (tn, d0)" by (cases p)
  from 1 have "bindE (resolveVisibility env user d0) (\<lambda>d1.
     (let d2 = normalizeText env d1;
          (tags0, emojis, mentioned0) = analyzeContent env user d2;
          tags = capTags tags0
      in
      bindE (addReplyAuthor env user d2 mentioned0) (\<lambda>mentioned1.
      bindE (specifiedAudience env d2 mentioned1) (\<lambda>(d3, mentionedUsers).
      (let d4 = (if opt_apMentions d3 = None then d3
                 else d3\<lparr>opt_apMentions := Some mentionedUsers\<rparr>)
       in Inr \<lparr>r_target = tn,
               r_note = buildNote env user tn d4 tags emojis mentionedUsers,
               r_data = d4, r_tags = tags, r_mentionedUsers = mentionedUsers\<rparr>))))) = Inr r"
    unfolding pe by simp
  then obtain d1 where v: "resolveVisibility env user d0 = Inr d1"
    and 2: "(let d2 = normalizeText env d1;
          (tags0, emojis, mentioned0) = analyzeContent env user d2;
          tags = capTags tags0
      in
      bindE (addReplyAuthor env user d2 mentioned0) (\<lambda>mentioned1.
      bindE (specifiedAudience env d2 mentioned1) (\<lambda>(d3, mentionedUsers).
      (let d4 = (if opt_apMentions d3 = None then d3
                 else d3\<lparr>opt_apMentions := Some mentionedUsers\<rparr>)
       in Inr \<lparr>r_target = tn,
               r_note = buildNote env user tn d4 tags emojis mentionedUsers,
               r_data = d4, r_tags = tags, r_mentionedUsers = mentionedUsers\<rparr>)))) = Inr r"
    by (rule bindE_InrE)
  obtain t0 e0 m0 where an: "analyzeContent env user (normalizeText env d1) = (t0, e0, m0)"
    by (cases "analyzeContent env user (normalizeText env d1)")
  from 2 have "bindE (addReplyAuthor env user (normalizeText env d1) m0) (\<lambda>mentioned1.
      bindE (specifiedAudience env (normalizeText env d1) mentioned1) (\<lambda>(d3, mentionedUsers).
      (let d4 = (if opt_apMentions d3 = None then d3
                 else d3\<lparr>opt_apMentions := Some mentionedUsers\<rparr>)
       in Inr \<lparr>r_target = tn,
               r_note = buildNote env user tn d4 (capTags t0) e0 mentionedUsers,
               r_data = d4, r_tags = capTags t0, r_mentionedUsers = mentionedUsers\<rparr>))) = Inr r"
    by (simp add: Let_def an)
  then obtain m1 where a: "addReplyAuthor env user (normalizeText env d1) m0 = Inr m1"
    and 3: "bindE (specifiedAudience env (normalizeText env d1) m1) (\<lambda>(d3, mentionedUsers).
      (let d4 = (if opt_apMentions d3 = None then d3
                 else d3\<lparr>opt_apMentions := Some mentionedUsers\<rparr>)
       in Inr \<lparr>r_target = tn,
               r_note = buildNote env user tn d4 (capTags t0) e0 mentionedUsers,
               r_data = d4, r_tags = capTags t0, r_mentionedUsers = mentionedUsers\<rparr>)) = Inr r"
    by (rule bindE_InrE)
  from 3 obtain d3 ms where s: "specifiedAudience env (normalizeText env d1) m1 = Inr (d3, ms)"
    and 4: "(let d4 = (if opt_apMentions d3 = None then d3
                 else d3\<lparr>opt_apMentions := Some ms\<rparr>)
       in Inr \<lparr>r_target = tn,
               r_note = buildNote env user tn d4 (capTags t0) e0 ms,
               r_data = d4, r_tags = capTags t0, r_mentionedUsers = ms\<rparr>)
            = (Inr r :: error + Resolved)"
    by (rule bindE_pair_InrE)
  from 4 have r: "r = \<lparr>r_target = tn,
               r_note = buildNote env user tn
                 (if opt_apMentions d3 = None then d3 else d3\<lparr>opt_apMentions := Some ms\<rparr>)
                 (capTags t0) e0 ms,
               r_data = (if opt_apMentions d3 = None then d3
                         else d3\<lparr>opt_apMentions := Some ms\<rparr>),
               r_tags = capTags t0, r_mentionedUsers = ms\<rparr>"
    by (simp add: Let_def)
  show thesis
  proof (rule that[of tn d0 d1 m1 d3 ms])
    show "prepare env tid d = Inr (tn, d0)" using p pe by simp
    show "resolveVisibility env user d0 = Inr d1" by (rule v)
    show "addReplyAuthor env user (normalizeText env d1)
       (snd (snd (analyzeContent env user (normalizeText env d1)))) = Inr m1"
      using a by (simp add: an)
    show "specifiedAudience env (normalizeText env d1) m1 = Inr (d3, ms)"
      by (rule s)
    show "r_target r = tn" by (simp add: r)
    show "r_data r = (if opt_apMentions d3 = None then d3 else d3\<lparr>opt_apMentions := Some ms\<rparr>)"
      by (simp add: r)
    show "r_tags r = capTags (fst (analyzeContent env user (normalizeText env d1)))"
      by (simp add: r an)
    show "r_mentionedUsers r = ms" by (simp add: r)
    show "r_note r = buildNote env user tn (r_data r) (r_tags r)
                  (fst (snd (analyzeContent env user (normalizeText env d1)))) ms"
      by (simp add: r an)
  qed
qed

lemma commit_stored:
  assumes "NotesRepositoryUpdate i n \<in> set (snd (commit env user r silent editor))
           \<or> fst (commit env user r silent editor) = Inr n"
  shows "n = r_note r"
proof (cases "notesUpdate env (r_note r)")
  case (Some e)
  with assms show ?thesis by (simp add: commit_def Let_def split: if_splits)
next
  case None
  show ?thesis
  proof (cases editor)
    case N: None
    with None assms show ?thesis by (auto simp: commit_def Let_def)
  next
    case (Some ed)
    with None assms show ?thesis
      by (cases "findOneByOrFail (\<lambda>u. user_id u = note_userId (r_note r)) (usersRepository env)")
         (auto simp: commit_def Let_def split: if_splits)
  qed
qed

lemma edit_stored:
  assumes "NotesRepositoryUpdate i n \<in> set (snd (edit env user tid d silent editor))
           \<or> fst (edit env user tid d silent editor) = Inr n"
  shows "\<exists>r. resolve env user tid d = Inr r \<and> n = r_note r"
proof (cases "resolve env user tid d")
  case (Inl e)
  with assms show ?thesis by (simp add: edit_def)
next
  case (Inr r)
  with assms have "NotesRepositoryUpdate i n \<in> set (snd (commit env user r silent editor))
           \<or> fst (commit env user r silent editor) = Inr n"
    by (simp add: edit_def)
  then have "n = r_note r" by (rule commit_stored)
  with Inr show ?thesis by simp
qed

lemma buildNote_fields:
  "note_visibleUserIds (buildNote env user tn d tags emojis ms) =
     (if opt_visibility d = Some ''specified''
      then (case opt_visibleUsers d of Some us \<Rightarrow> map user_id us | None \<Rightarrow> [])
      else [])"
  "note_visibility (buildNote env user tn d tags emojis ms) =
     (case opt_visibility d of Some v \<Rightarrow> v | None \<Rightarrow> note_visibility tn)"
  "note_localOnly (buildNote env user tn d tags emojis ms) =
     (case opt_localOnly d of Some b \<Rightarrow> b | None \<Rightarrow> note_localOnly tn)"
  "note_channelId (buildNote env user tn d tags emojis ms) = map_option channel_id (opt_channel d)"
  "note_tags (buildNote env user tn d tags emojis ms) = map (normalizeForSearch env) tags"
  by (simp_all add: buildNote_def)

lemma normalizeText_frame: "\<exists>t. normalizeText env d = d\<lparr>opt_text := t\<rparr>"
  by (cases "opt_text d") (auto simp: normalizeText_def)

lemma specifiedAudience_frame:
  assumes "specifiedAudience env d ms0 = Inr (d3, ms)"
  shows "\<exists>vu. d3 = d\<lparr>opt_visibleUsers := vu\<rparr>"
proof (cases "opt_visibility d = Some ''specified''")
  case False
  with assms have "d3 = d" by (simp add: specifiedAudience_def)
  then have "d3 = d\<lparr>opt_visibleUsers := opt_visibleUsers d\<rparr>" by simp
  then show ?thesis ..
next
  case True
  with assms obtain vus where vus: "opt_visibleUsers d = Some vus"
    by (cases "opt_visibleUsers d") (auto simp: specifiedAudience_def)
  show ?thesis
  proof (cases "opt_reply d")
    case None
    with assms True vus have "d3 = d" by (simp add: specifiedAudience_def Let_def)
    then have "d3 = d\<lparr>opt_visibleUsers := opt_visibleUsers d\<rparr>" by simp
    then show ?thesis ..
  next
    case (Some rp)
    show ?thesis
    proof (cases "note_userId rp \<notin> set (map user_id vus)")
      case False
      with assms True vus Some have "d3 = d" by (simp add: specifiedAudience_def Let_def)
      then have "d3 = d\<lparr>opt_visibleUsers := opt_visibleUsers d\<rparr>" by simp
      then show ?thesis ..
    next
      case T: True
      with assms True vus Some obtain u where "d3 = d\<lparr>opt_visibleUsers := Some (vus @ [u])\<rparr>"
        by (auto simp: specifiedAudience_def Let_def bindE_Inr_iff)
      then show ?thesis ..
    qed
  qed
qed

lemma resolved_data:
  assumes "resolve env user tid d = Inr r"
  obtains tn d0 d1 v l t vu am em ms where
    "prepare env tid d = Inr (tn, d0)"
    "resolveVisibility env user d0 = Inr d1"
    "d1 = d0\<lparr>opt_visibility := v, opt_localOnly := l\<rparr>"
    "specifiedAudience env (normalizeText env d1) ms = Inr ((normalizeText env d1)\<lparr>opt_visibleUsers := vu\<rparr>, r_mentionedUsers r)"
    "normalizeText env d1 = d1\<lparr>opt_text := t\<rparr>"
    "r_data r = d0\<lparr>opt_visibility := v, opt_localOnly := l, opt_text := t,
                   opt_visibleUsers := vu, opt_apMentions := am\<rparr>"
    "r_target r = tn"
    "r_tags r = capTags (fst (analyzeContent env user (normalizeText env d1)))"
    "r_note r = buildNote env user tn (r_data r) (r_tags r) em (r_mentionedUsers r)"
proof -
  from assms obtain tn d0 d1 m1 d3 ms where
    p: "prepare env tid d = Inr (tn, d0)" and
    v: "resolveVisibility env user d0 = Inr d1" and
    s: "specifiedAudience env (normalizeText env d1) m1 = Inr (d3, ms)" and
    tg: "r_target r = tn" and
    rd: "r_data r = (if opt_apMentions d3 = None then d3 else d3\<lparr>opt_apMentions := Some ms\<rparr>)" and
    rt: "r_tags r = capTags (fst (analyzeContent env user (normalizeText env d1)))" and
    rm: "r_mentionedUsers r = ms" and
    rn: "r_note r = buildNote env user tn (r_data r) (r_tags r)
                  (fst (snd (analyzeContent env user (normalizeText env d1)))) ms"
    by (rule resolve_steps)
  from resolveVisibility_frame[OF v] obtain vv l where
    d1: "d1 = d0\<lparr>opt_visibility := vv, opt_localOnly := l\<rparr>" by blast
  from normalizeText_frame[of env d1] obtain t where
    nt: "normalizeText env d1 = d1\<lparr>opt_text := t\<rparr>" by blast
  from specifiedAudience_frame[OF s] obtain vu where
    d3: "d3 = (normalizeText env d1)\<lparr>opt_visibleUsers := vu\<rparr>" by blast
  have "\<exists>am. r_data r = d3\<lparr>opt_apMentions := am\<rparr>"
  proof (cases "opt_apMentions d3 = None")
    case True
    then have "r_data r = d3\<lparr>opt_apMentions := opt_apMentions d3\<rparr>" by (simp add: rd)
    then show ?thesis ..
  next
    case False
    then have "r_data r = d3\<lparr>opt_apMentions := Some ms\<rparr>" by (simp add: rd)
    then show ?thesis ..
  qed
  then obtain am where am: "r_data r = d3\<lparr>opt_apMentions := am\<rparr>" ..
  show thesis
  proof (rule that)
    show "prepare env tid d = Inr (tn, d0)" by (rule p)
    show "resolveVisibility env user d0 = Inr d1" by (rule v)
    show "d1 = d0\<lparr>opt_visibility := vv, opt_localOnly := l\<rparr>" by (rule d1)
    show "specifiedAudience env (normalizeText env d1) m1 =
            Inr ((normalizeText env d1)\<lparr>opt_visibleUsers := vu\<rparr>, r_mentionedUsers r)"
      using s by (simp add: d3 rm)
    show "normalizeText env d1 = d1\<lparr>opt_text := t\<rparr>" by (rule nt)
    show "r_data r = d0\<lparr>opt_visibility := vv, opt_localOnly := l, opt_text := t,
                   opt_visibleUsers := vu, opt_apMentions := am\<rparr>"
      unfolding am d3 nt by (subst d1) simp
    show "r_target r = tn" by (rule tg)
    show "r_tags r = capTags (fst (analyzeContent env user (normalizeText env d1)))" by (rule rt)
    show "r_note r = buildNote env user tn (r_data r) (r_tags r)
            (fst (snd (analyzeContent env user (normalizeText env d1)))) (r_mentionedUsers r)"
      using rn by (simp add: rm)
  qed
qed

lemma analyzeContent_tags:
  "fst (analyzeContent env user d) =
     (case opt_apHashtags d of Some t \<Rightarrow> t | None \<Rightarrow> extractHashtags env (combinedTokens env d))"
  by (simp add: analyzeContent_def Let_def split: option.splits)

lemma combinedTokens_cong:
  "opt_text a = opt_text b \<Longrightarrow> opt_cw a = opt_cw b \<Longrightarrow> opt_poll a = opt_poll b \<Longrightarrow>
   combinedTokens env a = combinedTokens env b"
  by (simp add: combinedTokens_def)

subsubsection \<open>The fan-out\<close>

lemma apDeliver_localOnly:
  assumes "opt_localOnly data = Some True" "e \<in> set (apDeliver env note user data ms)"
  shows "carriedActivity e = None"
  using assms
  by (auto simp: apDeliver_def renderNoteOrRenoteActivity_def Let_def split: if_splits)

lemma apDeliver_no_notification:
  "e \<in> set (apDeliver env note user data ms) \<Longrightarrow> \<not> isCreateNotification e"
  by (auto simp: apDeliver_def Let_def split: if_splits)

lemma postNoteEdited_effects:
  assumes "e \<in> set (snd (postNoteEdited env note user data silent tags ms))"
  shows "e \<in> set (apDeliver env note user data ms) \<or> (carriedActivity e = None \<and> \<not> isFederationCall e \<and> \<not> isCreateNotification e)"
proof (cases silent)
  case True
  with assms show ?thesis
    by (auto simp: postNoteEdited_def Let_def split: if_splits option.splits)
next
  case False
  show ?thesis
  proof (cases "opt_visibility data = Some ''specified''")
    case s: True
    show ?thesis
    proof (cases "opt_visibleUsers data")
      case None
      with assms False s show ?thesis
        by (auto simp: postNoteEdited_def Let_def split: if_splits option.splits)
    next
      case (Some vus)
      with assms False s show ?thesis
        by (auto simp: postNoteEdited_def Let_def split: if_splits option.splits)
    qed
  next
    case ns: False
    with assms False show ?thesis
      by (auto simp: postNoteEdited_def Let_def split: if_splits option.splits)
  qed
qed

lemma commit_no_notification:
  "e \<in> set (snd (commit env user r silent editor)) \<Longrightarrow> \<not> isCreateNotification e"
  by (cases "notesUpdate env (r_note r)"; cases editor;
      cases "findOneByOrFail (\<lambda>u. user_id u = note_userId (r_note r)) (usersRepository env)")
     (auto simp: commit_def Let_def split: if_splits)

lemma filter_federation_map_unread [simp]:
  "filter isFederationCall (map (\<lambda>u. InsertNoteUnread (f u) n a b) xs) = []"
  by (induction xs) auto

lemma filter_federation_map_webhook [simp]:
  "filter isFederationCall (map (\<lambda>w. WebhookDeliver (f w) n) xs) = []"
  by (induction xs) auto

lemma filter_federation_apDeliver:
  "filter isFederationCall (apDeliver env note user data ms) = apDeliver env note user data ms"
  by (simp add: apDeliver_def Let_def)

lemma postNoteEdited_federation_calls:
  "filter isFederationCall (snd (postNoteEdited env note user data silent tags ms)) =
     (if \<not> silent \<and> isLocalUser user
         \<and> \<not> (opt_visibility data = Some ''specified'' \<and> opt_visibleUsers data = None)
      then apDeliver env note user data ms else [])"
proof (cases silent)
  case True
  then show ?thesis
    by (simp add: postNoteEdited_def Let_def split: option.splits)
next
  case False
  show ?thesis
  proof (cases "opt_visibility data = Some ''specified''")
    case s: True
    show ?thesis
    proof (cases "opt_visibleUsers data")
      case None
      with False s show ?thesis
        by (simp add: postNoteEdited_def Let_def split: option.splits)
    next
      case (Some vus)
      with False s show ?thesis
        by (simp add: postNoteEdited_def Let_def filter_federation_apDeliver split: option.splits)
    qed
  next
    case ns: False
    with False show ?thesis
      by (simp add: postNoteEdited_def Let_def filter_federation_apDeliver split: option.splits)
  qed
qed

subsubsection \<open>Renote targets and audiences\<close>

lemma prepare_visibility_defined:
  "prepare env tid d = Inr (tn, d0) \<Longrightarrow> \<exists>v. opt_visibility d0 = Some v"
  using prepare_facts(5)[of env tid d tn d0] by (simp add: orElse_def split: option.splits)

lemma renote_rejected:
  assumes "opt_renote d = Some rn"
    and "note_visibility rn = ''specified''
         \<or> (note_visibility rn = ''followers'' \<and> note_userId rn \<noteq> user_id user)"
  shows "resolveVisibility env user d =
           Inl (if isKeyWordIncluded env (cwOrText d) (prohibitedWords (metaFetch env))
                then ContainsProhibitedWordsError
                else JsError ''Error'' ''Renote target is not public or home'')"
proof -
  have "renoteVisibility user (downgradeSilenced env user (downgradeSensitive env user d))
          = Inl (JsError ''Error'' ''Renote target is not public or home'')"
    using assms
    by (auto simp: renoteVisibility_def downgradeSilenced_frame downgradeSensitive_frame)
  then show ?thesis
    by (simp add: resolveVisibility_def rejectProhibited_def downgradeSensitive_frame)
qed

lemma renoteVisibility_public:
  "opt_renote d = Some rn \<Longrightarrow> note_visibility rn = ''public'' \<Longrightarrow> renoteVisibility user d = Inr d"
  by (simp add: renoteVisibility_def)

lemma isQuote_visibility [simp]: "isQuote (d\<lparr>opt_visibility := v\<rparr>) = isQuote d"
  by (simp add: isQuote_def)

lemma renoteVisibility_accepts:
  assumes "opt_renote d = Some rn"
    and "note_visibility rn \<noteq> ''specified''"
    and "note_visibility rn = ''followers'' \<Longrightarrow> note_userId rn = user_id user"
  shows "renoteVisibility user d = Inr (d\<lparr>opt_visibility :=
           (if note_visibility rn = ''followers'' then Some ''followers''
            else if note_visibility rn = ''home'' \<and> opt_visibility d = Some ''public''
            then Some ''home'' else opt_visibility d)\<rparr>)"
  using assms by (simp add: renoteVisibility_def)

lemma checkBlocking_accepts:
  assumes "opt_renote d = Some rn"
    and "\<not> (\<not> isQuote d \<and> note_userHost rn = None \<and> note_userId rn \<noteq> user_id user
            \<and> checkBlocked env (note_userId rn) (user_id user))"
  shows "checkBlocking env user d = Inr d"
  using assms by (simp add: checkBlocking_def)

lemma resolveVisibility_accepts:
  assumes rn: "opt_renote d = Some rn"
    and np: "\<not> isKeyWordIncluded env (cwOrText d) (prohibitedWords (metaFetch env))"
    and ns: "note_visibility rn \<noteq> ''specified''"
    and own: "note_visibility rn = ''followers'' \<Longrightarrow> note_userId rn = user_id user"
    and nb: "\<not> (\<not> isQuote d \<and> note_userHost rn = None \<and> note_userId rn \<noteq> user_id user
            \<and> checkBlocked env (note_userId rn) (user_id user))"
  shows "\<exists>d1. resolveVisibility env user d = Inr d1"
proof -
  let ?s = "downgradeSensitive env user d"
  let ?x = "downgradeSilenced env user ?s"
  obtain v where x: "?x = d\<lparr>opt_visibility := v\<rparr>"
    using downgrades_frame by blast
  have 1: "rejectProhibited env ?s = Inr ?s"
    using np by (simp add: rejectProhibited_def downgradeSensitive_frame)
  have rx: "opt_renote ?x = Some rn" by (simp add: x rn)
  obtain w where 2: "renoteVisibility user ?x = Inr (d\<lparr>opt_visibility := w\<rparr>)"
    using renoteVisibility_accepts[OF rx ns own] by (simp add: x)
  have 3: "checkBlocking env user (d\<lparr>opt_visibility := w\<rparr>) = Inr (d\<lparr>opt_visibility := w\<rparr>)"
    by (rule checkBlocking_accepts[where rn = rn]) (use nb rn in simp_all)
  show ?thesis
    by (simp add: resolveVisibility_def 1 2 3)
qed

lemma specifiedAudience_visibleUsers:
  assumes "specifiedAudience env d ms0 = Inr (d3, ms)"
    and "opt_visibility d = Some ''specified''"
    and "opt_visibleUsers d = Some vus"
  shows "map_option (map user_id) (opt_visibleUsers d3) =
           Some (map user_id vus @
                 (case opt_reply d of
                    None \<Rightarrow> []
                  | Some rp \<Rightarrow> if note_userId rp \<in> set (map user_id vus) then []
                               else [note_userId rp]))"
proof (cases "opt_reply d")
  case None
  with assms show ?thesis by (auto simp: specifiedAudience_def Let_def)
next
  case (Some rp)
  show ?thesis
  proof (cases "note_userId rp \<in> set (map user_id vus)")
    case True
    with assms Some show ?thesis by (auto simp: specifiedAudience_def Let_def)
  next
    case False
    with assms Some obtain u where
      u: "find (\<lambda>u. user_id u = note_userId rp) (usersRepository env) = Some u" and
      d3: "d3 = d\<lparr>opt_visibleUsers := Some (vus @ [u])\<rparr>"
      by (auto simp: specifiedAudience_def Let_def bindE_Inr_iff findOneByOrFail_Inr)
    from u have "user_id u = note_userId rp" by (auto simp: find_Some_iff)
    with False Some show ?thesis by (simp add: d3)
  qed
qed

subsubsection \<open>The payload's tags have no part in whether the edit is resolved\<close>

lemma tags_inheritReplyAndChannel:
  "inheritReplyAndChannel env tn (d\<lparr>opt_apHashtags := x\<rparr>)
     = (inheritReplyAndChannel env tn d)\<lparr>opt_apHashtags := x\<rparr>"
  by (rule OptionT.equality) (auto simp: inheritReplyAndChannel_def Let_def)

lemma tags_replyOutsideChannel:
  "replyOutsideChannel env (d\<lparr>opt_apHashtags := x\<rparr>)
     = (replyOutsideChannel env d)\<lparr>opt_apHashtags := x\<rparr>"
  by (rule OptionT.equality) (auto simp: replyOutsideChannel_def split: option.splits)

lemma tags_replyInsideChannel:
  "replyInsideChannel env (d\<lparr>opt_apHashtags := x\<rparr>)
     = (replyInsideChannel env d)\<lparr>opt_apHashtags := x\<rparr>"
  by (rule OptionT.equality) (auto simp: replyInsideChannel_def split: option.splits)

lemma tags_inheritScope:
  "inheritScope env tid tn (d\<lparr>opt_apHashtags := x\<rparr>)
     = (inheritScope env tid tn d)\<lparr>opt_apHashtags := x\<rparr>"
  by (rule OptionT.equality) (auto simp: inheritScope_def)

lemma tags_inheritRest:
  "inheritRest env tn (d\<lparr>opt_apHashtags := x\<rparr>) = (inheritRest env tn d)\<lparr>opt_apHashtags := x\<rparr>"
  by (rule OptionT.equality) (auto simp: inheritRest_def)

lemma tags_forceChannelScope:
  "forceChannelScope (d\<lparr>opt_apHashtags := x\<rparr>) = (forceChannelScope d)\<lparr>opt_apHashtags := x\<rparr>"
  by (rule OptionT.equality) (auto simp: forceChannelScope_def)

lemma bindE_map_sum:
  assumes "m' = map_sum id g m" and "\<And>x. f' (g x) = map_sum id h (f x)"
  shows "bindE m' f' = map_sum id h (bindE m f)"
  by (cases m) (simp_all add: assms)

lemma tags_swap:
  "d\<lparr>opt_apHashtags := x, opt_renote := r\<rparr> = d\<lparr>opt_renote := r, opt_apHashtags := x\<rparr>"
  "d\<lparr>opt_apHashtags := x, opt_reply := p\<rparr> = d\<lparr>opt_reply := p, opt_apHashtags := x\<rparr>"
  "d\<lparr>opt_apHashtags := x, opt_poll := q\<rparr> = d\<lparr>opt_poll := q, opt_apHashtags := x\<rparr>"
  "d\<lparr>opt_apHashtags := x, opt_visibility := v\<rparr> = d\<lparr>opt_visibility := v, opt_apHashtags := x\<rparr>"
  "d\<lparr>opt_apHashtags := x, opt_visibleUsers := vu\<rparr>
     = d\<lparr>opt_visibleUsers := vu, opt_apHashtags := x\<rparr>"
  by (rule OptionT.equality; simp)+

lemma tags_inheritRenote:
  "inheritRenote env tn (d\<lparr>opt_apHashtags := x\<rparr>)
     = map_sum id (\<lambda>d. d\<lparr>opt_apHashtags := x\<rparr>) (inheritRenote env tn d)"
proof (cases "opt_renote d = None \<and> truthy (note_renoteId tn)")
  case True
  then show ?thesis
    by (cases "findOneByOrFail (\<lambda>n. Some (note_id n) = note_renoteId tn) (notesRepository env)")
       (simp_all add: inheritRenote_def)
next
  case False
  then show ?thesis by (auto simp: inheritRenote_def)
qed

lemma tags_inheritReply:
  "inheritReply env tn (d\<lparr>opt_apHashtags := x\<rparr>)
     = map_sum id (\<lambda>d. d\<lparr>opt_apHashtags := x\<rparr>) (inheritReply env tn d)"
proof (cases "opt_reply d = None \<and> truthy (note_replyId tn)")
  case True
  then show ?thesis
    by (cases "findOneByOrFail (\<lambda>n. Some (note_id n) = note_replyId tn) (notesRepository env)")
       (simp_all add: inheritReply_def)
next
  case False
  then show ?thesis by (auto simp: inheritReply_def)
qed

lemma tags_inheritPoll:
  "inheritPoll env tid tn (d\<lparr>opt_apHashtags := x\<rparr>)
     = map_sum id (\<lambda>d. d\<lparr>opt_apHashtags := x\<rparr>) (inheritPoll env tid tn d)"
proof (cases "opt_poll d = None \<and> note_hasPoll tn")
  case True
  then show ?thesis
    by (cases "findOneByOrFail (\<lambda>p. fst p = tid) (pollsRepository env)")
       (simp_all add: inheritPoll_def)
next
  case False
  then show ?thesis by (auto simp: inheritPoll_def)
qed

lemma tags_inheritFromTarget:
  "inheritFromTarget env tid tn (d\<lparr>opt_apHashtags := x\<rparr>)
     = map_sum id (\<lambda>d. d\<lparr>opt_apHashtags := x\<rparr>) (inheritFromTarget env tid tn d)"
  unfolding inheritFromTarget_def tags_inheritScope
  apply (rule bindE_map_sum[OF tags_inheritRenote])
  apply (rule bindE_map_sum[OF tags_inheritReply])
  apply (rule bindE_map_sum[OF tags_inheritPoll])
  apply (simp only: tags_inheritRest map_sum.simps)
  done

lemma tags_prepare:
  "prepare env tid (d\<lparr>opt_apHashtags := x\<rparr>)
     = map_sum id (\<lambda>p. (fst p, (snd p)\<lparr>opt_apHashtags := x\<rparr>)) (prepare env tid d)"
  unfolding prepare_def tags_inheritReplyAndChannel tags_replyOutsideChannel
    tags_replyInsideChannel
  apply (rule bindE_map_sum[where g = id])
   apply (simp only: sum.map_id id_apply)
  apply (simp only: id_apply)
  apply (rule bindE_map_sum[OF tags_inheritFromTarget])
  apply (simp only: tags_forceChannelScope map_sum.simps fst_conv snd_conv)
  done

lemma tags_cwOrText: "cwOrText (d\<lparr>opt_apHashtags := x\<rparr>) = cwOrText d"
  by (simp add: cwOrText_def split: option.splits)

lemma tags_isQuote: "isQuote (d\<lparr>opt_apHashtags := x\<rparr>) = isQuote d"
  by (simp add: isQuote_def)

lemma tags_downgradeSensitive:
  "downgradeSensitive env user (d\<lparr>opt_apHashtags := x\<rparr>)
     = (downgradeSensitive env user d)\<lparr>opt_apHashtags := x\<rparr>"
  by (rule OptionT.equality) (auto simp: downgradeSensitive_def tags_cwOrText)

lemma tags_downgradeSilenced:
  "downgradeSilenced env user (d\<lparr>opt_apHashtags := x\<rparr>)
     = (downgradeSilenced env user d)\<lparr>opt_apHashtags := x\<rparr>"
  by (rule OptionT.equality) (auto simp: downgradeSilenced_def Let_def)

lemma tags_replyScope:
  "replyScope (d\<lparr>opt_apHashtags := x\<rparr>) = (replyScope d)\<lparr>opt_apHashtags := x\<rparr>"
  by (cases "opt_reply d"; cases "opt_renote d"; rule OptionT.equality;
      simp add: replyScope_def Let_def)

lemma tags_normalizeText:
  "normalizeText env (d\<lparr>opt_apHashtags := x\<rparr>) = (normalizeText env d)\<lparr>opt_apHashtags := x\<rparr>"
  by (rule OptionT.equality) (auto simp: normalizeText_def split: option.splits)

lemma tags_rejectProhibited:
  "rejectProhibited env (d\<lparr>opt_apHashtags := x\<rparr>)
     = map_sum id (\<lambda>d. d\<lparr>opt_apHashtags := x\<rparr>) (rejectProhibited env d)"
  by (simp add: rejectProhibited_def tags_cwOrText)

lemma tags_renoteVisibility:
  "renoteVisibility user (d\<lparr>opt_apHashtags := x\<rparr>)
     = map_sum id (\<lambda>d. d\<lparr>opt_apHashtags := x\<rparr>) (renoteVisibility user d)"
  by (cases "opt_renote d") (simp_all add: renoteVisibility_def)

lemma tags_checkBlocking:
  "checkBlocking env user (d\<lparr>opt_apHashtags := x\<rparr>)
     = map_sum id (\<lambda>d. d\<lparr>opt_apHashtags := x\<rparr>) (checkBlocking env user d)"
  by (cases "opt_renote d") (simp_all add: checkBlocking_def tags_isQuote)

lemma tags_resolveVisibility:
  "resolveVisibility env user (d\<lparr>opt_apHashtags := x\<rparr>)
     = map_sum id (\<lambda>d. d\<lparr>opt_apHashtags := x\<rparr>) (resolveVisibility env user d)"
  unfolding resolveVisibility_def tags_downgradeSensitive
  apply (rule bindE_map_sum[OF tags_rejectProhibited])
  apply (simp only: tags_downgradeSilenced)
  apply (rule bindE_map_sum[OF tags_renoteVisibility])
  apply (rule bindE_map_sum[OF tags_checkBlocking])
  apply (simp only: tags_replyScope map_sum.simps)
  done

lemma tags_combinedTokens:
  "combinedTokens env (d\<lparr>opt_apHashtags := x\<rparr>) = combinedTokens env d"
  by (simp add: combinedTokens_def)

lemma tags_analyzeContent:
  "analyzeContent env user (d\<lparr>opt_apHashtags := Some ts\<rparr>)
     = (ts, snd (analyzeContent env user d))"
  by (simp add: analyzeContent_def tags_combinedTokens Let_def split: option.splits)

lemma tags_addReplyAuthor:
  "addReplyAuthor env user (d\<lparr>opt_apHashtags := x\<rparr>) ms = addReplyAuthor env user d ms"
  by (simp add: addReplyAuthor_def)

lemma tags_specifiedAudience:
  "specifiedAudience env (d\<lparr>opt_apHashtags := x\<rparr>) ms
     = map_sum id (\<lambda>p. ((fst p)\<lparr>opt_apHashtags := x\<rparr>, snd p)) (specifiedAudience env d ms)"
proof (cases "opt_visibility d = Some ''specified''")
  case False
  then show ?thesis by (simp add: specifiedAudience_def)
next
  case True
  show ?thesis
  proof (cases "opt_visibleUsers d")
    case None
    with True show ?thesis by (simp add: specifiedAudience_def)
  next
    case vu: (Some visibleUsers)
    show ?thesis
    proof (cases "opt_reply d")
      case None
      with True vu show ?thesis by (simp add: specifiedAudience_def Let_def)
    next
      case (Some reply)
      with True vu show ?thesis
        by (cases "findOneByOrFail (\<lambda>u. user_id u = note_userId reply) (usersRepository env)")
           (simp_all add: specifiedAudience_def Let_def)
    qed
  qed
qed

lemma tags_buildNote:
  "buildNote env user tn (d\<lparr>opt_apHashtags := x\<rparr>) tags emojis ms
     = buildNote env user tn d tags emojis ms"
  by (simp add: buildNote_def)

lemma buildNote_retag:
  "(buildNote env user tn d tags emojis ms)\<lparr>note_tags := map (normalizeForSearch env) tags'\<rparr>
     = buildNote env user tn d tags' emojis ms"
  by (simp add: buildNote_def)

subsubsection \<open>Nor has the tag extractor\<close>

lemma ext_inheritReplyAndChannel:
  "inheritReplyAndChannel (env\<lparr>extractHashtags := f\<rparr>) tn d = inheritReplyAndChannel env tn d"
  by (simp add: inheritReplyAndChannel_def Let_def
        cong: if_cong option.case_cong)

lemma ext_replyOutsideChannel:
  "replyOutsideChannel (env\<lparr>extractHashtags := f\<rparr>) d = replyOutsideChannel env d"
  by (simp add: replyOutsideChannel_def channelsFindOneBy_def Let_def
        cong: if_cong option.case_cong)

lemma ext_replyInsideChannel:
  "replyInsideChannel (env\<lparr>extractHashtags := f\<rparr>) d = replyInsideChannel env d"
  by (simp add: replyInsideChannel_def channelsFindOneBy_def Let_def
        cong: if_cong option.case_cong)

lemma ext_inheritFromTarget:
  "inheritFromTarget (env\<lparr>extractHashtags := f\<rparr>) tid tn d = inheritFromTarget env tid tn d"
  by (simp add: inheritFromTarget_def inheritScope_def inheritRenote_def inheritReply_def
        inheritPoll_def inheritRest_def Let_def
        cong: if_cong option.case_cong)

lemma ext_prepare: "prepare (env\<lparr>extractHashtags := f\<rparr>) tid d = prepare env tid d"
  by (simp add: prepare_def ext_inheritReplyAndChannel ext_replyOutsideChannel
        ext_replyInsideChannel ext_inheritFromTarget Let_def
        cong: if_cong option.case_cong)

lemma ext_resolveVisibility:
  "resolveVisibility (env\<lparr>extractHashtags := f\<rparr>) user d = resolveVisibility env user d"
  by (simp add: resolveVisibility_def downgradeSensitive_def rejectProhibited_def
        downgradeSilenced_def checkBlocking_def Let_def
        cong: if_cong option.case_cong)

lemma ext_normalizeText: "normalizeText (env\<lparr>extractHashtags := f\<rparr>) d = normalizeText env d"
  by (simp add: normalizeText_def Let_def
        cong: if_cong option.case_cong)

lemma ext_combinedTokens: "combinedTokens (env\<lparr>extractHashtags := f\<rparr>) d = combinedTokens env d"
  by (simp add: combinedTokens_def Let_def
        cong: if_cong option.case_cong)

lemma ext_extractMentionedUsers:
  "extractMentionedUsers (env\<lparr>extractHashtags := f\<rparr>) user toks = extractMentionedUsers env user toks"
  by (simp add: extractMentionedUsers_def Let_def
        cong: if_cong option.case_cong)

lemma ext_analyzeContent:
  "analyzeContent (env\<lparr>extractHashtags := f\<rparr>) user (d\<lparr>opt_apHashtags := Some ts\<rparr>)
     = analyzeContent env user (d\<lparr>opt_apHashtags := Some ts\<rparr>)"
  by (simp add: analyzeContent_def ext_combinedTokens ext_extractMentionedUsers Let_def
        cong: if_cong option.case_cong)

lemma ext_addReplyAuthor:
  "addReplyAuthor (env\<lparr>extractHashtags := f\<rparr>) user d ms = addReplyAuthor env user d ms"
  by (simp add: addReplyAuthor_def Let_def
        cong: if_cong option.case_cong)

lemma ext_specifiedAudience:
  "specifiedAudience (env\<lparr>extractHashtags := f\<rparr>) d ms = specifiedAudience env d ms"
  by (simp add: specifiedAudience_def Let_def
        cong: if_cong option.case_cong)

lemma ext_buildNote:
  "buildNote (env\<lparr>extractHashtags := f\<rparr>) user tn d tags emojis ms
     = buildNote env user tn d tags emojis ms"
  by (simp add: buildNote_def mentionedRemoteUsersOf_def Let_def
        cong: if_cong option.case_cong)

lemma resolve_supplied_tags:
  "resolve (env\<lparr>extractHashtags := f\<rparr>) user tid (d\<lparr>opt_apHashtags := Some ts\<rparr>)
     = map_sum id
         (\<lambda>r. r\<lparr>r_note := (r_note r)\<lparr>note_tags := map (normalizeForSearch env) (capTags ts)\<rparr>,
                r_data := (r_data r)\<lparr>opt_apHashtags := Some ts\<rparr>,
                r_tags := capTags ts\<rparr>)
         (resolve env user tid d)"
proof (cases "prepare env tid d")
  case (Inl e)
  then have "prepare (env\<lparr>extractHashtags := f\<rparr>) tid (d\<lparr>opt_apHashtags := Some ts\<rparr>) = Inl e"
    by (simp add: ext_prepare tags_prepare)
  with Inl show ?thesis by (simp add: resolve_def)
next
  case (Inr p)
  obtain tn d0 where p: "p = (tn, d0)" by (cases p)
  have p': "prepare (env\<lparr>extractHashtags := f\<rparr>) tid (d\<lparr>opt_apHashtags := Some ts\<rparr>)
              = Inr (tn, d0\<lparr>opt_apHashtags := Some ts\<rparr>)"
    by (simp add: ext_prepare tags_prepare Inr p)
  show ?thesis
  proof (cases "resolveVisibility env user d0")
    case (Inl e)
    then have "resolveVisibility (env\<lparr>extractHashtags := f\<rparr>) user
                 (d0\<lparr>opt_apHashtags := Some ts\<rparr>) = Inl e"
      by (simp add: ext_resolveVisibility tags_resolveVisibility)
    with Inl show ?thesis by (simp add: resolve_def Inr p p')
  next
    case rv: (Inr d1)
    have rv': "resolveVisibility (env\<lparr>extractHashtags := f\<rparr>) user
                 (d0\<lparr>opt_apHashtags := Some ts\<rparr>)
                 = Inr (d1\<lparr>opt_apHashtags := Some ts\<rparr>)"
      by (simp add: ext_resolveVisibility tags_resolveVisibility rv)
    define d2 where "d2 = normalizeText env d1"
    have n': "normalizeText (env\<lparr>extractHashtags := f\<rparr>) (d1\<lparr>opt_apHashtags := Some ts\<rparr>)
                = d2\<lparr>opt_apHashtags := Some ts\<rparr>"
      by (simp add: ext_normalizeText tags_normalizeText d2_def)
    obtain t0 em m0 where ac: "analyzeContent env user d2 = (t0, em, m0)"
      by (cases "analyzeContent env user d2")
    have ac': "analyzeContent (env\<lparr>extractHashtags := f\<rparr>) user
                 (d2\<lparr>opt_apHashtags := Some ts\<rparr>) = (ts, em, m0)"
      unfolding ext_analyzeContent by (simp add: tags_analyzeContent ac)
    define k where "k = (\<lambda>tags (p :: OptionT \<times> MiUser list).
       (let d4 = (if opt_apMentions (fst p) = None then fst p
                  else (fst p)\<lparr>opt_apMentions := Some (snd p)\<rparr>)
        in (Inr \<lparr>r_target = tn,
                 r_note = buildNote env user tn d4 tags em (snd p),
                 r_data = d4, r_tags = tags, r_mentionedUsers = snd p\<rparr> :: error + Resolved)))"
    have s: "resolve env user tid d =
               bindE (addReplyAuthor env user d2 m0) (\<lambda>m1.
               bindE (specifiedAudience env d2 m1) (k (capTags t0)))"
      unfolding k_def
      by (simp add: resolve_def Inr p rv d2_def[symmetric] ac case_prod_unfold Let_def
               cong: if_cong)
    have s': "resolve (env\<lparr>extractHashtags := f\<rparr>) user tid (d\<lparr>opt_apHashtags := Some ts\<rparr>) =
               bindE (addReplyAuthor env user d2 m0) (\<lambda>m1.
               bindE (specifiedAudience env (d2\<lparr>opt_apHashtags := Some ts\<rparr>) m1)
                 (k (capTags ts)))"
      unfolding k_def
      by (simp add: resolve_def p' rv' n' ac' tags_addReplyAuthor ext_addReplyAuthor
            ext_specifiedAudience ext_buildNote case_prod_unfold Let_def cong: if_cong)
    have kk: "k (capTags ts) ((fst q)\<lparr>opt_apHashtags := Some ts\<rparr>, snd q) =
        map_sum id
         (\<lambda>r. r\<lparr>r_note := (r_note r)\<lparr>note_tags := map (normalizeForSearch env) (capTags ts)\<rparr>,
                r_data := (r_data r)\<lparr>opt_apHashtags := Some ts\<rparr>,
                r_tags := capTags ts\<rparr>)
         (k (capTags t0) q)" for q
    proof (cases "opt_apMentions (fst q)")
      case None
      then show ?thesis
        by (simp add: k_def Let_def tags_buildNote buildNote_retag)
    next
      case (Some y)
      have sw: "(fst q)\<lparr>opt_apHashtags := Some ts, opt_apMentions := Some (snd q)\<rparr>
               = (fst q)\<lparr>opt_apMentions := Some (snd q), opt_apHashtags := Some ts\<rparr>"
        by (rule OptionT.equality) simp_all
      from Some show ?thesis
        by (simp add: k_def Let_def sw tags_buildNote buildNote_retag)
    qed
    show ?thesis
      unfolding s s'
      apply (rule bindE_map_sum[where g = id])
       apply (simp only: sum.map_id id_apply)
      apply (simp only: id_apply)
      apply (rule bindE_map_sum[OF tags_specifiedAudience])
      apply (rule kk)
      done
  qed
qed

text \<open>
  An edit that is resolved is resolved whatever tags the payload supplies instead and
  whatever the extractor returns, up to the tags.
\<close>

lemma resolve_any_tags:
  assumes "resolve env user tid d = Inr r"
  shows "resolve (env\<lparr>extractHashtags := f\<rparr>) user tid (d\<lparr>opt_apHashtags := Some ts\<rparr>)
     = Inr (r\<lparr>r_note := (r_note r)\<lparr>note_tags := map (normalizeForSearch env) (capTags ts)\<rparr>,
              r_data := (r_data r)\<lparr>opt_apHashtags := Some ts\<rparr>,
              r_tags := capTags ts\<rparr>)"
  by (simp add: resolve_supplied_tags assms)

lemma resolve_any_extractor:
  assumes "resolve env user tid d = Inr r"
  shows "\<exists>r'. resolve (env\<lparr>extractHashtags := f\<rparr>) user tid d = Inr r'
           \<and> note_id (r_note r') = note_id (r_note r)
           \<and> combinedTokens env (r_data r') = combinedTokens env (r_data r)"
proof (cases "resolve (env\<lparr>extractHashtags := f\<rparr>) user tid d")
  case (Inl e)
  have "resolve (env\<lparr>extractHashtags := f\<rparr>) user tid (d\<lparr>opt_apHashtags := Some []\<rparr>)
          = Inl e"
    using resolve_supplied_tags[where env = "env\<lparr>extractHashtags := f\<rparr>" and f = f
            and user = user and tid = tid and d = d and ts = "[]"] Inl
    by simp
  with resolve_any_tags[OF assms, where f = f and ts = "[]"] show ?thesis by simp
next
  case (Inr r')
  have "resolve (env\<lparr>extractHashtags := f\<rparr>) user tid (d\<lparr>opt_apHashtags := Some []\<rparr>)
          = Inr (r'\<lparr>r_note := (r_note r')\<lparr>note_tags :=
                          map (normalizeForSearch (env\<lparr>extractHashtags := f\<rparr>)) (capTags [])\<rparr>,
              r_data := (r_data r')\<lparr>opt_apHashtags := Some []\<rparr>,
              r_tags := capTags []\<rparr>)"
    using resolve_supplied_tags[where env = "env\<lparr>extractHashtags := f\<rparr>" and f = f
            and user = user and tid = tid and d = d and ts = "[]"] Inr
    by simp
  with resolve_any_tags[OF assms, where f = f and ts = "[]"]
  have e: "r'\<lparr>r_note := (r_note r')\<lparr>note_tags :=
                          map (normalizeForSearch (env\<lparr>extractHashtags := f\<rparr>)) (capTags [])\<rparr>,
              r_data := (r_data r')\<lparr>opt_apHashtags := Some []\<rparr>,
              r_tags := capTags []\<rparr>
         = r\<lparr>r_note := (r_note r)\<lparr>note_tags := map (normalizeForSearch env) (capTags [])\<rparr>,
              r_data := (r_data r)\<lparr>opt_apHashtags := Some []\<rparr>,
              r_tags := capTags []\<rparr>"
    by simp
  from arg_cong[OF e, of "\<lambda>r. note_id (r_note r)"]
  have 1: "note_id (r_note r') = note_id (r_note r)" by simp
  from arg_cong[OF e, of "\<lambda>r. combinedTokens env (r_data r)"]
  have 2: "combinedTokens env (r_data r') = combinedTokens env (r_data r)"
    by (simp add: tags_combinedTokens)
  from Inr 1 2 show ?thesis by simp
qed

lemma commit_update_id:
  assumes "NotesRepositoryUpdate i n \<in> set (snd (commit env user r silent editor))"
  shows "i = note_id (r_note r)"
proof (cases "notesUpdate env (r_note r)")
  case (Some e)
  with assms show ?thesis by (simp add: commit_def Let_def split: if_splits)
next
  case None
  show ?thesis
  proof (cases editor)
    case N: None
    with None assms show ?thesis by (auto simp: commit_def Let_def)
  next
    case (Some ed)
    with None assms show ?thesis
      by (cases "findOneByOrFail (\<lambda>u. user_id u = note_userId (r_note r)) (usersRepository env)")
         (auto simp: commit_def Let_def split: if_splits)
  qed
qed

lemma commit_attempts_store:
  "NotesRepositoryUpdate (note_id (r_note r)) (r_note r)
     \<in> set (snd (commit env user r silent editor))"
proof (cases "notesUpdate env (r_note r)")
  case (Some e)
  then show ?thesis by (simp add: commit_def Let_def)
next
  case None
  show ?thesis
  proof (cases editor)
    case N: None
    with None show ?thesis by (simp add: commit_def Let_def)
  next
    case (Some ed)
    with None show ?thesis
      by (cases "findOneByOrFail (\<lambda>u. user_id u = note_userId (r_note r)) (usersRepository env)")
         (simp_all add: commit_def Let_def)
  qed
qed

lemma resolved_tags:
  assumes r: "resolve env user targetId data = Inr r"
  shows "r_tags r = take 32 (filter (\<lambda>t. codePointLength t \<le> 128)
          (case opt_apHashtags data of
             Some ts \<Rightarrow> ts
           | None \<Rightarrow> extractHashtags env (combinedTokens env (r_data r))))"
    and "note_tags (r_note r) = map (normalizeForSearch env) (r_tags r)"
proof -
  from r obtain tn d0 d1 v l t vu am em where
    p: "prepare env targetId data = Inr (tn, d0)" and
    d1: "d1 = d0\<lparr>opt_visibility := v, opt_localOnly := l\<rparr>" and
    nt: "normalizeText env d1 = d1\<lparr>opt_text := t\<rparr>" and
    rd: "r_data r = d0\<lparr>opt_visibility := v, opt_localOnly := l, opt_text := t,
                   opt_visibleUsers := vu, opt_apMentions := am\<rparr>" and
    rt: "r_tags r = capTags (fst (analyzeContent env user (normalizeText env d1)))" and
    rn: "r_note r = buildNote env user tn (r_data r) (r_tags r) em (r_mentionedUsers r)"
    by (rule resolved_data)
  have ct: "combinedTokens env (normalizeText env d1) = combinedTokens env (r_data r)"
    unfolding nt rd by (subst d1, rule combinedTokens_cong) simp_all
  have ah: "opt_apHashtags (normalizeText env d1) = opt_apHashtags data"
    unfolding nt by (subst d1) (simp add: prepare_facts(4)[OF p])
  show "r_tags r = take 32 (filter (\<lambda>t. codePointLength t \<le> 128)
          (case opt_apHashtags data of
             Some ts \<Rightarrow> ts
           | None \<Rightarrow> extractHashtags env (combinedTokens env (r_data r))))"
    unfolding rt capTags_def analyzeContent_tags ah ct ..
  show "note_tags (r_note r) = map (normalizeForSearch env) (r_tags r)"
    by (simp add: rn buildNote_fields)
qed

subsection \<open>The claims\<close>

text \<open>
  Claim C1 (amended). The keyword filter is given \<^verbatim>\<open>data.cw ?? data.text ?? ''\<close>: the
  content warning when the payload has one, the body text otherwise. When that text
  contains a prohibited keyword, \<^verbatim>\<open>edit\<close> performs no store update and no other
  write, whatever the visibility and channel of the payload; it throws
  \<open>ContainsProhibitedWordsError\<close>, unless a lookup of the target note or of a note or
  poll it refers to has already failed, in which case that failure is thrown. A body
  text behind a content warning is not examined.
\<close>

theorem prohibited_rejected:
  assumes "isKeyWordIncluded env (cwOrText data) (prohibitedWords (metaFetch env))"
  shows "snd (edit env user targetId data silent editor) = [] \<and>
         fst (edit env user targetId data silent editor) =
           (case prepare env targetId data of
              Inl e \<Rightarrow> Inl e
            | Inr p \<Rightarrow> Inl ContainsProhibitedWordsError)"
proof (cases "prepare env targetId data")
  case (Inl e)
  then show ?thesis by (simp add: edit_def resolve_def)
next
  case (Inr p)
  obtain tn d0 where p: "p = (tn, d0)" by (cases p)
  have "cwOrText d0 = cwOrText data"
    using Inr unfolding p by (rule prepare_cwOrText)
  with assms have "rejectProhibited env (downgradeSensitive env user d0)
                     = Inl ContainsProhibitedWordsError"
    by (simp add: rejectProhibited_def downgradeSensitive_frame)
  then have "resolve env user targetId data = Inl ContainsProhibitedWordsError"
    by (simp add: resolve_def Inr p resolveVisibility_def)
  then show ?thesis by (simp add: edit_def Inr)
qed

theorem prohibited_rejected_witness:
  "isKeyWordIncluded sampleEnv (cwOrText badEdit) (prohibitedWords (metaFetch sampleEnv))
   \<and> edit sampleEnv alice ''n1'' badEdit False None = (Inl ContainsProhibitedWordsError, [])"
proof -
  have h: "isKeyWordIncluded sampleEnv (cwOrText badEdit) (prohibitedWords (metaFetch sampleEnv))"
    by code_simp
  have p: "(case prepare sampleEnv ''n1'' badEdit of
              Inl e \<Rightarrow> Inl e
            | Inr p \<Rightarrow> Inl ContainsProhibitedWordsError)
           = (Inl ContainsProhibitedWordsError :: error + MiNote)"
    by code_simp
  from prohibited_rejected[OF h, of alice "''n1''" False None] h p
  show ?thesis by (simp add: prod_eq_iff)
qed

theorem prohibited_body_behind_cw_counterexample:
  "opt_text cwEdit = Some (js ''bad'')
   \<and> isKeyWordIncluded sampleEnv (js ''bad'') (prohibitedWords (metaFetch sampleEnv))
   \<and> edit sampleEnv alice ''n1'' cwEdit False None =
       (Inr ((edited ''n1'' ''u1'' ''public'')\<lparr>note_text := Some (js ''bad''), note_cw := Some (js ''cw'')\<rparr>),
        [NotesRepositoryUpdate ''n1''
           ((edited ''n1'' ''u1'' ''public'')\<lparr>note_text := Some (js ''bad''), note_cw := Some (js ''cw'')\<rparr>),
         PostNoteEditedScheduled ''n1'' alice
           (cwEdit\<lparr>opt_createdAt := Some 0, opt_visibility := Some ''public'',
              opt_localOnly := Some False, opt_files := Some [], opt_visibleUsers := Some []\<rparr>)
           False [] []])"
  by code_simp

text \<open>
  Claim C2 (amended). When the resolved channel is not null, the record passed to the
  store update is local only and has no visible users, whatever the payload asked for.
  Its visibility is set to \<^verbatim>\<open>public\<close> first, but the later rules still narrow it: it is
  \<^verbatim>\<open>followers\<close> when the renoted note is (the acting user's own) followers-only note,
  otherwise \<^verbatim>\<open>home\<close> when the acting user is a remote user of a silenced host, the
  renoted note is \<^verbatim>\<open>home\<close>, or the replied-to note is not public, and
  \<^verbatim>\<open>public\<close> in every other case.
\<close>

theorem channel_note_scope:
  assumes "NotesRepositoryUpdate i n \<in> set (snd (edit env user targetId data silent editor))"
    and "note_channelId n \<noteq> None"
  shows "note_localOnly n \<and> note_visibleUserIds n = [] \<and>
     (\<exists>r. resolve env user targetId data = Inr r \<and> n = r_note r \<and>
        note_visibility n =
          (if map_option note_visibility (opt_renote (r_data r)) = Some ''followers''
           then ''followers''
           else if (isSilencedHost env (silencedHosts (metaFetch env)) (user_host user)
                    \<and> user_host user \<noteq> None)
                 \<or> map_option note_visibility (opt_renote (r_data r)) = Some ''home''
                 \<or> (opt_reply (r_data r) \<noteq> None
                     \<and> map_option note_visibility (opt_reply (r_data r)) \<noteq> Some ''public'')
           then ''home'' else ''public''))"
proof -
  from assms(1) obtain r where r: "resolve env user targetId data = Inr r" and n: "n = r_note r"
    using edit_stored by blast
  from r obtain tn d0 d1 v l t vu am em where
    p: "prepare env targetId data = Inr (tn, d0)" and
    rv: "resolveVisibility env user d0 = Inr d1" and
    d1: "d1 = d0\<lparr>opt_visibility := v, opt_localOnly := l\<rparr>" and
    rd: "r_data r = d0\<lparr>opt_visibility := v, opt_localOnly := l, opt_text := t,
                   opt_visibleUsers := vu, opt_apMentions := am\<rparr>" and
    rn: "r_note r = buildNote env user tn (r_data r) (r_tags r) em (r_mentionedUsers r)"
    by (rule resolved_data)
  have ch: "opt_channel d0 \<noteq> None"
    using assms(2) by (simp add: n rn buildNote_fields rd)
  have v0: "opt_visibility d0 = Some ''public''" and l0: "opt_localOnly d0 = Some True"
    using prepare_facts(5,6)[OF p] ch by simp_all
  have v: "v = opt_visibility d1" and l: "l = opt_localOnly d1"
    by (subst d1, simp)+
  have lt: "l = Some True"
    unfolding l using rv l0 by (rule resolveVisibility_localOnly)
  have vf: "v = (if map_option note_visibility (opt_renote d0) = Some ''followers''
           then Some ''followers''
           else if (isSilencedHost env (silencedHosts (metaFetch env)) (user_host user)
                    \<and> user_host user \<noteq> None)
                 \<or> map_option note_visibility (opt_renote d0) = Some ''home''
                 \<or> (opt_reply d0 \<noteq> None
                     \<and> map_option note_visibility (opt_reply d0) \<noteq> Some ''public'')
           then Some ''home'' else Some ''public'')"
    unfolding v resolveVisibility_visibility[OF rv] using ch v0 by auto
  have 1: "note_localOnly n" by (simp add: n rn buildNote_fields rd lt)
  have 2: "note_visibleUserIds n = []"
    by (simp add: n rn buildNote_fields rd vf)
  have 3: "note_visibility n =
          (if map_option note_visibility (opt_renote (r_data r)) = Some ''followers''
           then ''followers''
           else if (isSilencedHost env (silencedHosts (metaFetch env)) (user_host user)
                    \<and> user_host user \<noteq> None)
                 \<or> map_option note_visibility (opt_renote (r_data r)) = Some ''home''
                 \<or> (opt_reply (r_data r) \<noteq> None
                     \<and> map_option note_visibility (opt_reply (r_data r)) \<noteq> Some ''public'')
           then ''home'' else ''public'')"
    by (simp add: n rn buildNote_fields rd vf)
  from 1 2 3 r n show ?thesis by blast
qed

theorem channel_note_scope_witness:
  "NotesRepositoryUpdate ''n1''
     ((edited ''n1'' ''u1'' ''public'')\<lparr>note_channelId := Some ''c1'', note_localOnly := True\<rparr>)
     \<in> set (snd (edit sampleEnv alice ''n1'' channelEdit False None))
   \<and> opt_visibility channelEdit = Some ''followers''
   \<and> note_localOnly
        ((edited ''n1'' ''u1'' ''public'')\<lparr>note_channelId := Some ''c1'', note_localOnly := True\<rparr>)
   \<and> note_visibleUserIds
        ((edited ''n1'' ''u1'' ''public'')\<lparr>note_channelId := Some ''c1'', note_localOnly := True\<rparr>)
       = []"
proof -
  let ?n = "(edited ''n1'' ''u1'' ''public'')\<lparr>note_channelId := Some ''c1'', note_localOnly := True\<rparr>"
  have h1: "NotesRepositoryUpdate ''n1'' ?n
              \<in> set (snd (edit sampleEnv alice ''n1'' channelEdit False None))"
    by code_simp
  have h2: "note_channelId ?n \<noteq> None" by simp
  have h3: "opt_visibility channelEdit = Some ''followers''" by (simp add: channelEdit_def)
  from channel_note_scope[OF h1 h2] h1 h3 show ?thesis by simp
qed

theorem channel_note_scope_counterexample:
  "edit sampleEnv alice ''n1'' channelRenoteEdit False None =
     (Inr ((edited ''n1'' ''u1'' ''home'')
             \<lparr>note_channelId := Some ''c1'', note_renoteId := Some ''n2'',
              note_renoteUserId := Some ''u2'', note_localOnly := True\<rparr>),
      [NotesRepositoryUpdate ''n1''
         ((edited ''n1'' ''u1'' ''home'')
             \<lparr>note_channelId := Some ''c1'', note_renoteId := Some ''n2'',
              note_renoteUserId := Some ''u2'', note_localOnly := True\<rparr>),
       PostNoteEditedScheduled ''n1'' alice
         (channelRenoteEdit\<lparr>opt_createdAt := Some 0, opt_visibility := Some ''home'',
            opt_localOnly := Some True, opt_files := Some [], opt_visibleUsers := Some []\<rparr>)
         False [] []])"
  by code_simp

text \<open>
  Claim C3 (amended). The fan-out of an edit emits no notification at all: neither
  \<^verbatim>\<open>edit\<close> nor \<^verbatim>\<open>postNoteEdited\<close> creates a \<^verbatim>\<open>NotificationManager\<close> or calls
  \<^verbatim>\<open>createNotification\<close>, whatever the reply, renote, quote and mention relationships
  of the edit are. The class is only declared; its \<^verbatim>\<open>notify\<close> would emit one
  notification for each queue entry.
\<close>

theorem edit_emits_no_notification:
  "filter isCreateNotification
     (snd (postNoteEdited env note user data silent tags mentionedUsers)) = []
   \<and> filter isCreateNotification (snd (edit env user targetId data silent editor)) = []
   \<and> map isCreateNotification (notify nm) = map (\<lambda>x. True) (queue nm)"
proof -
  have 1: "filter isCreateNotification
     (snd (postNoteEdited env note user data silent tags mentionedUsers)) = []"
    unfolding filter_empty_conv
    using postNoteEdited_effects apDeliver_no_notification by blast
  have 2: "filter isCreateNotification (snd (edit env user targetId data silent editor)) = []"
    unfolding filter_empty_conv
    by (cases "resolve env user targetId data") (auto simp: edit_def dest: commit_no_notification)
  have 3: "map isCreateNotification (notify nm) = map (\<lambda>x. True) (queue nm)"
    by (simp add: notify_def)
  from 1 2 3 show ?thesis by simp
qed

theorem edit_emits_no_notification_witness:
  "filter isCreateNotification
     (snd (postNoteEdited sampleEnv repliedNote alice (prepared replyEdit ''public'')
             False [] [bob])) = []"
  using edit_emits_no_notification[of sampleEnv repliedNote alice "prepared replyEdit ''public''"
          False "[]" "[bob]"]
  by (rule conjunct1)

theorem edit_emits_no_notification_counterexample:
  "edit sampleEnv alice ''n1'' replyEdit False None =
     (Inr repliedNote,
      [NotesRepositoryUpdate ''n1'' repliedNote,
       PostNoteEditedScheduled ''n1'' alice (prepared replyEdit ''public'') False [] [bob]])
   \<and> map_option note_userId (opt_reply replyEdit) = Some (user_id bob)
   \<and> user_id bob \<noteq> user_id alice
   \<and> postNoteEdited sampleEnv repliedNote alice (prepared replyEdit ''public'') False [] [bob] =
     (None,
      [NotesChartUpdate ''n1'', PerUserNotesChartUpdate ''u1'' ''n1'',
       UpdateHashtags ''u1'' [], ActiveUsersChartWrite ''u1'',
       InsertNoteUnread ''u2'' ''n1'' False True, PublishNotesStream ''n1'',
       AddNoteToRoleTimeline ''n1'',
       DeliverToRelays ''u1'' (Some (RenderNoteUpdate ''n1'' ''u1'')),
       DeliverManagerExecute ''u1'' (Some (RenderNoteUpdate ''n1'' ''u1'')) [FollowersRecipe],
       SearchIndexNote ''n1''])"
  by code_simp

text \<open>
  Claim C4. For an edit with a renote target (the payload's, or the one the target note
  already has; \<open>v0\<close> below is the visibility after defaulting, which is never null):
  a \<^verbatim>\<open>specified\<close> target, and a \<^verbatim>\<open>followers\<close> target of another author, make
  \<^verbatim>\<open>edit\<close> throw with nothing written (the renote error, unless the
  prohibited-keyword check, which comes first, throws its own); with a \<^verbatim>\<open>followers\<close>
  target of the acting user the stored visibility is \<^verbatim>\<open>followers\<close>; with a \<^verbatim>\<open>home\<close>
  target a visibility that would be \<^verbatim>\<open>public\<close> is stored as \<^verbatim>\<open>home\<close> and any other
  is kept; a \<^verbatim>\<open>public\<close> target leaves the payload as it is, so the stored visibility
  is what the other rules make of it. The targets that are not rejected are accepted:
  the \<^verbatim>\<open>switch\<close> returns the payload with visibility \<^verbatim>\<open>followers\<close> for the acting
  user's own \<^verbatim>\<open>followers\<close> target and with \<^verbatim>\<open>public\<close> lowered to \<^verbatim>\<open>home\<close> for a
  \<^verbatim>\<open>home\<close> target, and the visibility rules as a whole succeed with that visibility
  whenever the text has no prohibited keyword and the renote is not blocked by the
  target's author.
\<close>

theorem renote_target_visibility:
  assumes "prepare env targetId data = Inr (tn, d0)"
    and "opt_renote d0 = Some rn"
    and "opt_visibility d0 = Some v0"
  shows "(note_visibility rn = ''specified''
          \<or> (note_visibility rn = ''followers'' \<and> note_userId rn \<noteq> user_id user) \<longrightarrow>
            edit env user targetId data silent editor =
              (Inl (if isKeyWordIncluded env (cwOrText data) (prohibitedWords (metaFetch env))
                    then ContainsProhibitedWordsError
                    else JsError ''Error'' ''Renote target is not public or home''), []))
       \<and> (\<forall>i n. NotesRepositoryUpdate i n \<in> set (snd (edit env user targetId data silent editor)) \<longrightarrow>
            (note_visibility rn = ''followers'' \<longrightarrow>
               note_userId rn = user_id user \<and> note_visibility n = ''followers'')
          \<and> (note_visibility rn = ''home'' \<longrightarrow>
               note_visibility n = (if v0 = ''public'' then ''home'' else v0))
          \<and> (note_visibility rn = ''public'' \<longrightarrow>
               note_visibility n =
                 (if v0 = ''public'' \<and>
                     ((opt_channel d0 = None \<and>
                         (isKeyWordIncluded env (cwOrText data) (sensitiveWords (metaFetch env))
                          \<or> \<not> canPublicNote env (user_id user)))
                      \<or> (isSilencedHost env (silencedHosts (metaFetch env)) (user_host user)
                          \<and> user_host user \<noteq> None)
                      \<or> (opt_reply d0 \<noteq> None
                          \<and> map_option note_visibility (opt_reply d0) \<noteq> Some ''public''))
                  then ''home'' else v0)))
       \<and> (note_visibility rn = ''public'' \<longrightarrow> renoteVisibility user d0 = Inr d0)
       \<and> (note_visibility rn = ''followers'' \<and> note_userId rn = user_id user \<longrightarrow>
            renoteVisibility user d0 = Inr (d0\<lparr>opt_visibility := Some ''followers''\<rparr>))
       \<and> (note_visibility rn = ''home'' \<longrightarrow>
            renoteVisibility user d0 =
              Inr (if v0 = ''public'' then d0\<lparr>opt_visibility := Some ''home''\<rparr> else d0))
       \<and> (\<not> isKeyWordIncluded env (cwOrText data) (prohibitedWords (metaFetch env))
          \<and> note_visibility rn \<noteq> ''specified''
          \<and> (note_visibility rn = ''followers'' \<longrightarrow> note_userId rn = user_id user)
          \<and> \<not> (\<not> isQuote d0 \<and> note_userHost rn = None \<and> note_userId rn \<noteq> user_id user
                 \<and> checkBlocked env (note_userId rn) (user_id user)) \<longrightarrow>
            (\<exists>d1. resolveVisibility env user d0 = Inr d1
               \<and> (note_visibility rn = ''followers'' \<longrightarrow> opt_visibility d1 = Some ''followers'')
               \<and> (note_visibility rn = ''home'' \<longrightarrow>
                    opt_visibility d1 = Some (if v0 = ''public'' then ''home'' else v0))))"
proof -
  have A: "note_visibility rn = ''specified''
          \<or> (note_visibility rn = ''followers'' \<and> note_userId rn \<noteq> user_id user) \<longrightarrow>
            edit env user targetId data silent editor =
              (Inl (if isKeyWordIncluded env (cwOrText data) (prohibitedWords (metaFetch env))
                    then ContainsProhibitedWordsError
                    else JsError ''Error'' ''Renote target is not public or home''), [])"
  proof
  assume rej: "note_visibility rn = ''specified''
          \<or> (note_visibility rn = ''followers'' \<and> note_userId rn \<noteq> user_id user)"
  have "resolve env user targetId data =
          Inl (if isKeyWordIncluded env (cwOrText d0) (prohibitedWords (metaFetch env))
               then ContainsProhibitedWordsError
               else JsError ''Error'' ''Renote target is not public or home'')"
    by (simp add: resolve_def assms(1) renote_rejected[OF assms(2) rej])
  then show "edit env user targetId data silent editor =
              (Inl (if isKeyWordIncluded env (cwOrText data) (prohibitedWords (metaFetch env))
                    then ContainsProhibitedWordsError
                    else JsError ''Error'' ''Renote target is not public or home''), [])"
    by (simp add: edit_def prepare_cwOrText[OF assms(1)])
  qed
  have C: "note_visibility rn = ''public'' \<longrightarrow> renoteVisibility user d0 = Inr d0"
    using assms(2) by (simp add: renoteVisibility_public)
  have B: "\<forall>i n. NotesRepositoryUpdate i n \<in> set (snd (edit env user targetId data silent editor)) \<longrightarrow>
            (note_visibility rn = ''followers'' \<longrightarrow>
               note_userId rn = user_id user \<and> note_visibility n = ''followers'')
          \<and> (note_visibility rn = ''home'' \<longrightarrow>
               note_visibility n = (if v0 = ''public'' then ''home'' else v0))
          \<and> (note_visibility rn = ''public'' \<longrightarrow>
               note_visibility n =
                 (if v0 = ''public'' \<and>
                     ((opt_channel d0 = None \<and>
                         (isKeyWordIncluded env (cwOrText data) (sensitiveWords (metaFetch env))
                          \<or> \<not> canPublicNote env (user_id user)))
                      \<or> (isSilencedHost env (silencedHosts (metaFetch env)) (user_host user)
                          \<and> user_host user \<noteq> None)
                      \<or> (opt_reply d0 \<noteq> None
                          \<and> map_option note_visibility (opt_reply d0) \<noteq> Some ''public''))
                  then ''home'' else v0))"
  proof (intro allI impI)
  fix i n
  assume st: "NotesRepositoryUpdate i n \<in> set (snd (edit env user targetId data silent editor))"
  then obtain r where r: "resolve env user targetId data = Inr r" and n: "n = r_note r"
    using edit_stored by blast
  from r obtain tn' d0' d1 v l t vu am em where
    p: "prepare env targetId data = Inr (tn', d0')" and
    rv: "resolveVisibility env user d0' = Inr d1" and
    d1: "d1 = d0'\<lparr>opt_visibility := v, opt_localOnly := l\<rparr>" and
    rd: "r_data r = d0'\<lparr>opt_visibility := v, opt_localOnly := l, opt_text := t,
                   opt_visibleUsers := vu, opt_apMentions := am\<rparr>" and
    rn: "r_note r = buildNote env user tn' (r_data r) (r_tags r) em (r_mentionedUsers r)"
    by (rule resolved_data)
  from p assms(1) have e: "tn' = tn" "d0' = d0" by simp_all
  have v: "v = opt_visibility d1" by (subst d1) simp
  note vf = resolveVisibility_visibility[OF rv, unfolded e, folded v]
  have nv: "note_visibility n = (case v of Some x \<Rightarrow> x | None \<Rightarrow> note_visibility tn)"
    by (simp add: n rn buildNote_fields rd e)
  have ct: "cwOrText d0 = cwOrText data" using assms(1) by (rule prepare_cwOrText)
  from rv obtain d2 where
    "renoteVisibility user (downgradeSilenced env user (downgradeSensitive env user d0)) = Inr d2"
    unfolding e by (rule resolveVisibility_steps)
  moreover have "opt_renote (downgradeSilenced env user (downgradeSensitive env user d0)) = Some rn"
    by (simp add: downgradeSilenced_frame downgradeSensitive_frame assms(2))
  ultimately have own: "note_visibility rn = ''followers'' \<Longrightarrow> note_userId rn = user_id user"
    by (rule renoteVisibility_ok)
  have f1: "note_visibility rn = ''followers'' \<longrightarrow>
               note_userId rn = user_id user \<and> note_visibility n = ''followers''"
    using own by (simp add: nv vf assms(2))
  have f2: "note_visibility rn = ''home'' \<longrightarrow>
               note_visibility n = (if v0 = ''public'' then ''home'' else v0)"
    by (auto simp: nv vf assms(2,3))
  have f3: "note_visibility rn = ''public'' \<longrightarrow>
               note_visibility n =
                 (if v0 = ''public'' \<and>
                     ((opt_channel d0 = None \<and>
                         (isKeyWordIncluded env (cwOrText data) (sensitiveWords (metaFetch env))
                          \<or> \<not> canPublicNote env (user_id user)))
                      \<or> (isSilencedHost env (silencedHosts (metaFetch env)) (user_host user)
                          \<and> user_host user \<noteq> None)
                      \<or> (opt_reply d0 \<noteq> None
                          \<and> map_option note_visibility (opt_reply d0) \<noteq> Some ''public''))
                  then ''home'' else v0)"
    by (auto simp: nv vf assms(2,3) ct)
  show "(note_visibility rn = ''followers'' \<longrightarrow>
               note_userId rn = user_id user \<and> note_visibility n = ''followers'')
          \<and> (note_visibility rn = ''home'' \<longrightarrow>
               note_visibility n = (if v0 = ''public'' then ''home'' else v0))
          \<and> (note_visibility rn = ''public'' \<longrightarrow>
               note_visibility n =
                 (if v0 = ''public'' \<and>
                     ((opt_channel d0 = None \<and>
                         (isKeyWordIncluded env (cwOrText data) (sensitiveWords (metaFetch env))
                          \<or> \<not> canPublicNote env (user_id user)))
                      \<or> (isSilencedHost env (silencedHosts (metaFetch env)) (user_host user)
                          \<and> user_host user \<noteq> None)
                      \<or> (opt_reply d0 \<noteq> None
                          \<and> map_option note_visibility (opt_reply d0) \<noteq> Some ''public''))
                  then ''home'' else v0))"
    by (rule conjI[OF f1 conjI[OF f2 f3]])
  qed
  have D: "note_visibility rn = ''followers'' \<and> note_userId rn = user_id user \<longrightarrow>
            renoteVisibility user d0 = Inr (d0\<lparr>opt_visibility := Some ''followers''\<rparr>)"
    using assms(2) by (simp add: renoteVisibility_def)
  have E: "note_visibility rn = ''home'' \<longrightarrow>
            renoteVisibility user d0 =
              Inr (if v0 = ''public'' then d0\<lparr>opt_visibility := Some ''home''\<rparr> else d0)"
    using assms(2,3) by (simp add: renoteVisibility_def)
  have ct0: "cwOrText d0 = cwOrText data" using assms(1) by (rule prepare_cwOrText)
  have F: "\<not> isKeyWordIncluded env (cwOrText data) (prohibitedWords (metaFetch env))
          \<and> note_visibility rn \<noteq> ''specified''
          \<and> (note_visibility rn = ''followers'' \<longrightarrow> note_userId rn = user_id user)
          \<and> \<not> (\<not> isQuote d0 \<and> note_userHost rn = None \<and> note_userId rn \<noteq> user_id user
                 \<and> checkBlocked env (note_userId rn) (user_id user)) \<longrightarrow>
            (\<exists>d1. resolveVisibility env user d0 = Inr d1
               \<and> (note_visibility rn = ''followers'' \<longrightarrow> opt_visibility d1 = Some ''followers'')
               \<and> (note_visibility rn = ''home'' \<longrightarrow>
                    opt_visibility d1 = Some (if v0 = ''public'' then ''home'' else v0)))"
  proof
    assume h: "\<not> isKeyWordIncluded env (cwOrText data) (prohibitedWords (metaFetch env))
          \<and> note_visibility rn \<noteq> ''specified''
          \<and> (note_visibility rn = ''followers'' \<longrightarrow> note_userId rn = user_id user)
          \<and> \<not> (\<not> isQuote d0 \<and> note_userHost rn = None \<and> note_userId rn \<noteq> user_id user
                 \<and> checkBlocked env (note_userId rn) (user_id user))"
    then have np: "\<not> isKeyWordIncluded env (cwOrText d0) (prohibitedWords (metaFetch env))"
      and ns: "note_visibility rn \<noteq> ''specified''"
      and own: "note_visibility rn = ''followers'' \<Longrightarrow> note_userId rn = user_id user"
      and nb: "\<not> (\<not> isQuote d0 \<and> note_userHost rn = None \<and> note_userId rn \<noteq> user_id user
                 \<and> checkBlocked env (note_userId rn) (user_id user))"
      by (simp_all add: ct0)
    obtain d1 where rv: "resolveVisibility env user d0 = Inr d1"
      using resolveVisibility_accepts[OF assms(2) np ns own nb] by blast
    note vf = resolveVisibility_visibility[OF rv]
    have f1: "note_visibility rn = ''followers'' \<longrightarrow> opt_visibility d1 = Some ''followers''"
      by (simp add: vf assms(2))
    have f2: "note_visibility rn = ''home'' \<longrightarrow>
                    opt_visibility d1 = Some (if v0 = ''public'' then ''home'' else v0)"
      by (auto simp: vf assms(2,3))
    show "\<exists>d1. resolveVisibility env user d0 = Inr d1
               \<and> (note_visibility rn = ''followers'' \<longrightarrow> opt_visibility d1 = Some ''followers'')
               \<and> (note_visibility rn = ''home'' \<longrightarrow>
                    opt_visibility d1 = Some (if v0 = ''public'' then ''home'' else v0))"
      by (intro exI[of _ d1] conjI rv f1 f2)
  qed
  show ?thesis
    by (rule conjI[OF A conjI[OF B conjI[OF C conjI[OF D conjI[OF E F]]]]])
qed

theorem renote_target_visibility_witness:
  "prepare sampleEnv ''n1'' renoteHomeEdit
     = Inr (mkNote ''n1'' ''u1'' ''public'', prepared renoteHomeEdit ''public'')
   \<and> NotesRepositoryUpdate ''n1''
        ((edited ''n1'' ''u1'' ''home'')\<lparr>note_renoteId := Some ''n2'', note_renoteUserId := Some ''u2''\<rparr>)
        \<in> set (snd (edit sampleEnv alice ''n1'' renoteHomeEdit False None))
   \<and> renoteVisibility alice (prepared renoteHomeEdit ''public'')
       = Inr ((prepared renoteHomeEdit ''public'')\<lparr>opt_visibility := Some ''home''\<rparr>)
   \<and> prepare sampleEnv ''n1'' renoteSpecifiedEdit
     = Inr (mkNote ''n1'' ''u1'' ''public'', prepared renoteSpecifiedEdit ''public'')
   \<and> edit sampleEnv alice ''n1'' renoteSpecifiedEdit False None
     = (Inl (JsError ''Error'' ''Renote target is not public or home''), [])
   \<and> prepare sampleEnv ''n1'' renoteOwnFollowersEdit
     = Inr (mkNote ''n1'' ''u1'' ''public'', prepared renoteOwnFollowersEdit ''public'')
   \<and> renoteVisibility alice (prepared renoteOwnFollowersEdit ''public'')
       = Inr ((prepared renoteOwnFollowersEdit ''public'')\<lparr>opt_visibility := Some ''followers''\<rparr>)
   \<and> (\<exists>d1. resolveVisibility sampleEnv alice (prepared renoteOwnFollowersEdit ''public'') = Inr d1
          \<and> opt_visibility d1 = Some ''followers'')
   \<and> NotesRepositoryUpdate ''n1''
        ((edited ''n1'' ''u1'' ''followers'')\<lparr>note_renoteId := Some ''n5'', note_renoteUserId := Some ''u1''\<rparr>)
        \<in> set (snd (edit sampleEnv alice ''n1'' renoteOwnFollowersEdit False None))
   \<and> prepare sampleEnv ''n1'' renoteForeignFollowersEdit
     = Inr (mkNote ''n1'' ''u1'' ''public'', prepared renoteForeignFollowersEdit ''public'')
   \<and> edit sampleEnv alice ''n1'' renoteForeignFollowersEdit False None
     = (Inl (JsError ''Error'' ''Renote target is not public or home''), [])"
proof -
  have p1: "prepare sampleEnv ''n1'' renoteHomeEdit
     = Inr (mkNote ''n1'' ''u1'' ''public'', prepared renoteHomeEdit ''public'')"
    by code_simp
  have r1: "opt_renote (prepared renoteHomeEdit ''public'') = Some (mkNote ''n2'' ''u2'' ''home'')"
    by code_simp
  have v1: "opt_visibility (prepared renoteHomeEdit ''public'') = Some ''public''"
    by code_simp
  have s1: "NotesRepositoryUpdate ''n1''
        ((edited ''n1'' ''u1'' ''home'')\<lparr>note_renoteId := Some ''n2'', note_renoteUserId := Some ''u2''\<rparr>)
        \<in> set (snd (edit sampleEnv alice ''n1'' renoteHomeEdit False None))"
    by code_simp
  have n2: "note_visibility (mkNote ''n2'' ''u2'' ''home'') = ''home''"
    by (simp add: mkNote_def)
  from renote_target_visibility[OF p1 r1 v1, of alice False None] n2
  have h1: "renoteVisibility alice (prepared renoteHomeEdit ''public'')
       = Inr ((prepared renoteHomeEdit ''public'')\<lparr>opt_visibility := Some ''home''\<rparr>)"
    by simp
  have p2: "prepare sampleEnv ''n1'' renoteSpecifiedEdit
     = Inr (mkNote ''n1'' ''u1'' ''public'', prepared renoteSpecifiedEdit ''public'')"
    by code_simp
  have r2: "opt_renote (prepared renoteSpecifiedEdit ''public'')
              = Some (mkNote ''n4'' ''u2'' ''specified'')"
    by code_simp
  have v2: "opt_visibility (prepared renoteSpecifiedEdit ''public'') = Some ''public''"
    by code_simp
  have k2: "\<not> isKeyWordIncluded sampleEnv (cwOrText renoteSpecifiedEdit)
             (prohibitedWords (metaFetch sampleEnv))"
    by code_simp
  have n4: "note_visibility (mkNote ''n4'' ''u2'' ''specified'') = ''specified''"
    by (simp add: mkNote_def)
  from renote_target_visibility[OF p2 r2 v2, of alice False None] n4 k2
  have e2: "edit sampleEnv alice ''n1'' renoteSpecifiedEdit False None
     = (Inl (JsError ''Error'' ''Renote target is not public or home''), [])"
    by simp
  have p3: "prepare sampleEnv ''n1'' renoteOwnFollowersEdit
     = Inr (mkNote ''n1'' ''u1'' ''public'', prepared renoteOwnFollowersEdit ''public'')"
    by code_simp
  have r3: "opt_renote (prepared renoteOwnFollowersEdit ''public'')
              = Some (mkNote ''n5'' ''u1'' ''followers'')"
    by code_simp
  have v3: "opt_visibility (prepared renoteOwnFollowersEdit ''public'') = Some ''public''"
    by code_simp
  have k3: "\<not> isKeyWordIncluded sampleEnv (cwOrText renoteOwnFollowersEdit)
             (prohibitedWords (metaFetch sampleEnv))"
    by code_simp
  have n5: "note_visibility (mkNote ''n5'' ''u1'' ''followers'') = ''followers''"
    "note_userId (mkNote ''n5'' ''u1'' ''followers'') = user_id alice"
    by (simp_all add: mkNote_def alice_def mkUser_def)
  note t3 = renote_target_visibility[OF p3 r3 v3, of alice False None]
  from t3 n5
  have h3: "renoteVisibility alice (prepared renoteOwnFollowersEdit ''public'')
       = Inr ((prepared renoteOwnFollowersEdit ''public'')\<lparr>opt_visibility := Some ''followers''\<rparr>)"
    by simp
  from t3 n5 k3
  have g3: "\<exists>d1. resolveVisibility sampleEnv alice (prepared renoteOwnFollowersEdit ''public'') = Inr d1
          \<and> opt_visibility d1 = Some ''followers''"
    by simp
  have s3: "NotesRepositoryUpdate ''n1''
        ((edited ''n1'' ''u1'' ''followers'')\<lparr>note_renoteId := Some ''n5'', note_renoteUserId := Some ''u1''\<rparr>)
        \<in> set (snd (edit sampleEnv alice ''n1'' renoteOwnFollowersEdit False None))"
    by code_simp
  have p4: "prepare sampleEnv ''n1'' renoteForeignFollowersEdit
     = Inr (mkNote ''n1'' ''u1'' ''public'', prepared renoteForeignFollowersEdit ''public'')"
    by code_simp
  have r4: "opt_renote (prepared renoteForeignFollowersEdit ''public'')
              = Some (mkNote ''n6'' ''u2'' ''followers'')"
    by code_simp
  have v4: "opt_visibility (prepared renoteForeignFollowersEdit ''public'') = Some ''public''"
    by code_simp
  have k4: "\<not> isKeyWordIncluded sampleEnv (cwOrText renoteForeignFollowersEdit)
             (prohibitedWords (metaFetch sampleEnv))"
    by code_simp
  have n6: "note_visibility (mkNote ''n6'' ''u2'' ''followers'') = ''followers''"
    "note_userId (mkNote ''n6'' ''u2'' ''followers'') \<noteq> user_id alice"
    by (simp_all add: mkNote_def alice_def mkUser_def)
  from renote_target_visibility[OF p4 r4 v4, of alice False None] n6 k4
  have e4: "edit sampleEnv alice ''n1'' renoteForeignFollowersEdit False None
     = (Inl (JsError ''Error'' ''Renote target is not public or home''), [])"
    by simp
  show ?thesis
    by (intro conjI p1 s1 h1 p2 e2 p3 h3 g3 s3 p4 e4)
qed

text \<open>
  Claim C5 (amended). After any sequence of \<^verbatim>\<open>push\<close> calls on a new manager, the queue
  holds no entry for the notifier and exactly one entry for every other target that
  was pushed. Its reason is that of the first push, overwritten by every later push whose
  reason is not \<^verbatim>\<open>mention\<close>: a reply after a mention gives \<^verbatim>\<open>reply\<close>, a mention
  after a reply leaves \<^verbatim>\<open>reply\<close>, and of two reasons other than \<^verbatim>\<open>mention\<close> the
  later one is kept.
\<close>

theorem push_merges:
  "filter (\<lambda>x. target x = t) (queue (pushAll (newNotificationManager me nid rid) ps)) =
     (case triggers t ps of
        [] \<Rightarrow> []
      | r # rs \<Rightarrow> if t = me then [] else [\<lparr>target = t, reason = mergeReason r rs\<rparr>])"
  using pushAll_filter[of "newNotificationManager me nid rid" t ps]
  by (auto simp: newNotificationManager_def split: list.splits)

theorem push_merges_witness:
  "filter (\<lambda>x. target x = ''u2'')
     (queue (pushAll (newNotificationManager ''u1'' ''n1'' None)
        [(''u2'', Mention), (''u3'', Renote), (''u1'', Reply), (''u2'', Reply), (''u2'', Mention)]))
   = [\<lparr>target = ''u2'', reason = Reply\<rparr>]"
  using push_merges[of "''u2''" "''u1''" "''n1''" None
      "[(''u2'', Mention), (''u3'', Renote), (''u1'', Reply), (''u2'', Reply), (''u2'', Mention)]"]
  by (simp add: triggers_def)

theorem push_merges_counterexample:
  "queue (pushAll (newNotificationManager ''u1'' ''n1'' None) [(''u2'', Reply), (''u2'', Renote)])
   = [\<lparr>target = ''u2'', reason = Renote\<rparr>]"
  by code_simp

text \<open>
  Claim C6. When the store update fails, \<^verbatim>\<open>edit\<close> throws an error named
  \<^verbatim>\<open>duplicated\<close> if the failure is a duplicate-key violation and the failure itself
  otherwise; in both cases the only effect is the attempted update, so no fan-out is
  scheduled.
\<close>

theorem duplicate_key_reclassified:
  assumes "resolve env user targetId data = Inr r"
    and "notesUpdate env (r_note r) = Some e"
  shows "edit env user targetId data silent editor =
           (Inl (if isDuplicateKeyValueError env e
                 then JsError ''duplicated'' ''Duplicated note'' else e),
            [NotesRepositoryUpdate (note_id (r_note r)) (r_note r)])"
  using assms by (simp add: edit_def commit_def Let_def)

theorem duplicate_key_reclassified_witness:
  "resolve dupEnv alice ''n1'' noOption = Inr (projr (resolve dupEnv alice ''n1'' noOption))
   \<and> notesUpdate dupEnv (r_note (projr (resolve dupEnv alice ''n1'' noOption)))
       = Some (QueryFailedError ''23505'')
   \<and> edit dupEnv alice ''n1'' noOption False None =
       (Inl (JsError ''duplicated'' ''Duplicated note''),
        [NotesRepositoryUpdate ''n1'' (edited ''n1'' ''u1'' ''public'')])"
proof -
  have h1: "resolve dupEnv alice ''n1'' noOption = Inr (projr (resolve dupEnv alice ''n1'' noOption))"
    by code_simp
  have h2: "notesUpdate dupEnv (r_note (projr (resolve dupEnv alice ''n1'' noOption)))
       = Some (QueryFailedError ''23505'')"
    by code_simp
  have h3: "r_note (projr (resolve dupEnv alice ''n1'' noOption)) = edited ''n1'' ''u1'' ''public''"
    by code_simp
  have h4: "isDuplicateKeyValueError dupEnv (QueryFailedError ''23505'')"
    by code_simp
  have h5: "note_id (edited ''n1'' ''u1'' ''public'') = ''n1''" by code_simp
  from duplicate_key_reclassified[OF h1 h2, of False None] h1 h2 h3 h4 h5
  show ?thesis by simp
qed

text \<open>
  Claim C7 (amended). The tags of the stored record are \<^verbatim>\<open>normalizeForSearch\<close> applied
  to the first 32 of those source tags (the payload's \<^verbatim>\<open>apHashtags\<close>, else the tags
  extracted from the text) that have at most 128 code points, in their order. So there
  are at most 32 of them; a tag of more than 128 code points is dropped, not shortened;
  and the bound of 128 holds before normalisation, which may lengthen a tag. The tags
  never make the edit fail: an edit that reaches the store update reaches it, for the
  same note, with any list of tags supplied in the payload instead, and with any tag
  extractor in place of the instance's, and stores the tags cut down in this way.
\<close>

theorem stored_tags_capped:
  assumes "NotesRepositoryUpdate i n \<in> set (snd (edit env user targetId data silent editor))"
  shows "length (note_tags n) \<le> 32 \<and>
     (\<exists>r. resolve env user targetId data = Inr r \<and> n = r_note r \<and>
        note_tags n = map (normalizeForSearch env) (r_tags r) \<and>
        (\<forall>t \<in> set (r_tags r). codePointLength t \<le> 128) \<and>
        r_tags r = take 32 (filter (\<lambda>t. codePointLength t \<le> 128)
          (case opt_apHashtags data of
             Some ts \<Rightarrow> ts
           | None \<Rightarrow> extractHashtags env (combinedTokens env (r_data r)))) \<and>
        (\<forall>ts. \<exists>n'.
           NotesRepositoryUpdate i n' \<in> set (snd (edit env user targetId
                                        (data\<lparr>opt_apHashtags := Some ts\<rparr>) silent editor)) \<and>
           note_tags n' = map (normalizeForSearch env)
                            (take 32 (filter (\<lambda>t. codePointLength t \<le> 128) ts))) \<and>
        (opt_apHashtags data = None \<longrightarrow>
           (\<forall>f. \<exists>n'.
              NotesRepositoryUpdate i n' \<in> set (snd (edit (env\<lparr>extractHashtags := f\<rparr>) user targetId
                                           data silent editor)) \<and>
              note_tags n' = map (normalizeForSearch env)
                               (take 32 (filter (\<lambda>t. codePointLength t \<le> 128)
                                  (f (combinedTokens env (r_data r))))))))"
proof -
  from assms(1) obtain r where r: "resolve env user targetId data = Inr r" and n: "n = r_note r"
    using edit_stored by blast
  from assms(1) r have i: "i = note_id (r_note r)"
    by (simp add: edit_def commit_update_id)
  note tg = resolved_tags(1)[OF r]
  have nt': "note_tags n = map (normalizeForSearch env) (r_tags r)"
    unfolding n by (rule resolved_tags(2)[OF r])
  have le: "length (note_tags n) \<le> 32"
    unfolding nt' tg by simp
  have cp: "\<forall>t \<in> set (r_tags r). codePointLength t \<le> 128"
    unfolding tg by (auto dest: in_set_takeD)
  have G: "\<exists>n'.
           NotesRepositoryUpdate i n' \<in> set (snd (edit env user targetId
                                        (data\<lparr>opt_apHashtags := Some ts\<rparr>) silent editor)) \<and>
           note_tags n' = map (normalizeForSearch env)
                            (take 32 (filter (\<lambda>t. codePointLength t \<le> 128) ts))" for ts
  proof -
    let ?r' = "r\<lparr>r_note := (r_note r)\<lparr>note_tags := map (normalizeForSearch env) (capTags ts)\<rparr>,
              r_data := (r_data r)\<lparr>opt_apHashtags := Some ts\<rparr>,
              r_tags := capTags ts\<rparr>"
    have "resolve env user targetId (data\<lparr>opt_apHashtags := Some ts\<rparr>) = Inr ?r'"
      using resolve_any_tags[OF r, where f = "extractHashtags env" and ts = ts] by simp
    then have "edit env user targetId (data\<lparr>opt_apHashtags := Some ts\<rparr>) silent editor
                 = commit env user ?r' silent editor"
      by (simp add: edit_def)
    moreover have "NotesRepositoryUpdate (note_id (r_note ?r')) (r_note ?r')
                     \<in> set (snd (commit env user ?r' silent editor))"
      by (rule commit_attempts_store)
    moreover have "note_id (r_note ?r') = i" by (simp add: i)
    moreover have "note_tags (r_note ?r') = map (normalizeForSearch env)
                            (take 32 (filter (\<lambda>t. codePointLength t \<le> 128) ts))"
      by (simp add: capTags_def)
    ultimately show ?thesis by metis
  qed
  have H: "\<exists>n'.
              NotesRepositoryUpdate i n' \<in> set (snd (edit (env\<lparr>extractHashtags := f\<rparr>) user targetId
                                           data silent editor)) \<and>
              note_tags n' = map (normalizeForSearch env)
                               (take 32 (filter (\<lambda>t. codePointLength t \<le> 128)
                                  (f (combinedTokens env (r_data r)))))"
    if none: "opt_apHashtags data = None" for f
  proof -
    from resolve_any_extractor[OF r, of f] obtain r' where
      r': "resolve (env\<lparr>extractHashtags := f\<rparr>) user targetId data = Inr r'" and
      id: "note_id (r_note r') = note_id (r_note r)" and
      ct: "combinedTokens env (r_data r') = combinedTokens env (r_data r)"
      by blast
    have "edit (env\<lparr>extractHashtags := f\<rparr>) user targetId data silent editor
            = commit (env\<lparr>extractHashtags := f\<rparr>) user r' silent editor"
      using r' by (simp add: edit_def)
    moreover have "NotesRepositoryUpdate (note_id (r_note r')) (r_note r')
                     \<in> set (snd (commit (env\<lparr>extractHashtags := f\<rparr>) user r' silent editor))"
      by (rule commit_attempts_store)
    moreover have "note_tags (r_note r') = map (normalizeForSearch env)
                               (take 32 (filter (\<lambda>t. codePointLength t \<le> 128)
                                  (f (combinedTokens env (r_data r)))))"
      using resolved_tags[OF r'] by (simp add: none ext_combinedTokens ct)
    ultimately show ?thesis using id i by metis
  qed
  from le r n nt' cp tg G H show ?thesis by blast
qed

theorem stored_tags_capped_witness:
  "NotesRepositoryUpdate ''n1''
     ((edited ''n1'' ''u1'' ''public'')\<lparr>note_tags := replicate 32 (js ''t'')\<rparr>)
     \<in> set (snd (edit sampleEnv alice ''n1'' manyTagsEdit False None))
   \<and> length (note_tags ((edited ''n1'' ''u1'' ''public'')\<lparr>note_tags := replicate 32 (js ''t'')\<rparr>))
       \<le> 32
   \<and> (\<exists>n'. NotesRepositoryUpdate ''n1'' n'
          \<in> set (snd (edit sampleEnv alice ''n1''
                         (manyTagsEdit\<lparr>opt_apHashtags := Some (replicate 1000 (js ''x''))\<rparr>)
                         False None))
        \<and> note_tags n' = map (normalizeForSearch sampleEnv)
             (take 32 (filter (\<lambda>t. codePointLength t \<le> 128) (replicate 1000 (js ''x'')))))"
proof -
  have h1: "NotesRepositoryUpdate ''n1''
     ((edited ''n1'' ''u1'' ''public'')\<lparr>note_tags := replicate 32 (js ''t'')\<rparr>)
     \<in> set (snd (edit sampleEnv alice ''n1'' manyTagsEdit False None))"
    by code_simp
  from stored_tags_capped[OF h1] h1 show ?thesis by blast
qed

theorem stored_tags_capped_counterexample:
  "codePointLength (replicate 128 0xFB01) = 128
   \<and> fst (edit ligatureEnv alice ''n1'' ligatureTagEdit False None) =
       Inr ((edited ''n1'' ''u1'' ''public'')\<lparr>note_tags := [concat (replicate 128 [0x66, 0x69])]\<rparr>)
   \<and> hd (snd (edit ligatureEnv alice ''n1'' ligatureTagEdit False None)) =
       NotesRepositoryUpdate ''n1''
         ((edited ''n1'' ''u1'' ''public'')\<lparr>note_tags := [concat (replicate 128 [0x66, 0x69])]\<rparr>)
   \<and> codePointLength (concat (replicate 128 [0x66, 0x69])) = 256"
  by code_simp

text \<open>
  Claim C8 (amended). The payload's visibility is a string that \<^verbatim>\<open>edit\<close> does not
  check. If the visibility the edit starts from (the payload's, else the target note's)
  is one of \<^verbatim>\<open>public\<close>, \<^verbatim>\<open>home\<close>, \<^verbatim>\<open>followers\<close>, \<^verbatim>\<open>specified\<close>, so is the
  visibility of the record produced. When that is \<^verbatim>\<open>specified\<close>, the visible user
  ids are those of the visible users the edit starts from (the payload's, else the
  users found for the target note's list), followed by the author of the replied-to
  note if there is one and it is not among them; the list is empty when the edit starts
  from no visible user and has no reply target.
\<close>

theorem stored_visibility_and_audience:
  assumes "NotesRepositoryUpdate i n \<in> set (snd (edit env user targetId data silent editor))
           \<or> fst (edit env user targetId data silent editor) = Inr n"
  shows "\<exists>r. resolve env user targetId data = Inr r \<and> n = r_note r \<and>
     ((case opt_visibility data of Some v \<Rightarrow> v | None \<Rightarrow> note_visibility (r_target r))
        \<in> set [''public'', ''home'', ''followers'', ''specified''] \<longrightarrow>
      note_visibility n \<in> set [''public'', ''home'', ''followers'', ''specified'']) \<and>
     (note_visibility n = ''specified'' \<longrightarrow>
      note_visibleUserIds n =
        map user_id
          (case opt_visibleUsers data of
             Some us \<Rightarrow> us
           | None \<Rightarrow> findByIn user_id (note_visibleUserIds (r_target r)) (usersRepository env))
        @ (case opt_reply (r_data r) of
             None \<Rightarrow> []
           | Some rp \<Rightarrow>
               if note_userId rp \<in> set (map user_id
                    (case opt_visibleUsers data of
                       Some us \<Rightarrow> us
                     | None \<Rightarrow> findByIn user_id (note_visibleUserIds (r_target r))
                                 (usersRepository env)))
               then [] else [note_userId rp]))"
proof -
  from assms obtain r where r: "resolve env user targetId data = Inr r" and n: "n = r_note r"
    using edit_stored by blast
  from r obtain tn d0 d1 v l t vu am em ms where
    p: "prepare env targetId data = Inr (tn, d0)" and
    rv: "resolveVisibility env user d0 = Inr d1" and
    d1: "d1 = d0\<lparr>opt_visibility := v, opt_localOnly := l\<rparr>" and
    sa: "specifiedAudience env (normalizeText env d1) ms =
           Inr ((normalizeText env d1)\<lparr>opt_visibleUsers := vu\<rparr>, r_mentionedUsers r)" and
    nt: "normalizeText env d1 = d1\<lparr>opt_text := t\<rparr>" and
    rd: "r_data r = d0\<lparr>opt_visibility := v, opt_localOnly := l, opt_text := t,
                   opt_visibleUsers := vu, opt_apMentions := am\<rparr>" and
    tg: "r_target r = tn" and
    rn: "r_note r = buildNote env user tn (r_data r) (r_tags r) em (r_mentionedUsers r)"
    by (rule resolved_data)
  let ?v0 = "case opt_visibility data of Some v \<Rightarrow> v | None \<Rightarrow> note_visibility tn"
  let ?us = "case opt_visibleUsers data of
               Some us \<Rightarrow> us
             | None \<Rightarrow> findByIn user_id (note_visibleUserIds tn) (usersRepository env)"
  have v0: "opt_visibility d0 = (if opt_channel d0 \<noteq> None then Some ''public'' else Some ?v0)"
    using prepare_facts(5)[OF p] by (simp add: orElse_def split: option.splits)
  have us: "opt_visibleUsers d0 = (if opt_channel d0 \<noteq> None then Some [] else Some ?us)"
    using prepare_facts(7)[OF p] by (simp add: orElse_def split: option.splits)
  have v: "v = opt_visibility d1" by (subst d1) simp
  note vf = resolveVisibility_visibility[OF rv, folded v]
  have nv: "note_visibility n = (case v of Some x \<Rightarrow> x | None \<Rightarrow> note_visibility tn)"
    by (simp add: n rn buildNote_fields rd)
  have vcases: "v = Some ''followers'' \<or> v = Some ''home'' \<or> v = opt_visibility d0"
    by (simp add: vf)
  have d0cases: "opt_visibility d0 = Some ''public'' \<or> opt_visibility d0 = Some ?v0"
    by (simp add: v0)
  from vcases d0cases have v4:
    "v = Some ''followers'' \<or> v = Some ''home'' \<or> v = Some ''public'' \<or> v = Some ?v0"
    by auto
  have 1: "?v0 \<in> set [''public'', ''home'', ''followers'', ''specified''] \<longrightarrow>
      note_visibility n \<in> set [''public'', ''home'', ''followers'', ''specified'']"
  proof
    assume a: "?v0 \<in> set [''public'', ''home'', ''followers'', ''specified'']"
    from v4 show "note_visibility n \<in> set [''public'', ''home'', ''followers'', ''specified'']"
    proof (elim disjE)
      assume "v = Some ''followers''" then show ?thesis by (simp add: nv)
    next
      assume "v = Some ''home''" then show ?thesis by (simp add: nv)
    next
      assume "v = Some ''public''" then show ?thesis by (simp add: nv)
    next
      assume "v = Some ?v0" then have "note_visibility n = ?v0" by (simp add: nv)
      with a show ?thesis by simp
    qed
  qed
  have 2: "note_visibility n = ''specified'' \<longrightarrow>
      note_visibleUserIds n =
        map user_id ?us
        @ (case opt_reply (r_data r) of
             None \<Rightarrow> []
           | Some rp \<Rightarrow> if note_userId rp \<in> set (map user_id ?us) then [] else [note_userId rp])"
  proof
    assume s: "note_visibility n = ''specified''"
    from v4 have vs: "v = Some ''specified''"
    proof (elim disjE)
      assume "v = Some ''followers''" with s show ?thesis by (simp add: nv)
    next
      assume "v = Some ''home''" with s show ?thesis by (simp add: nv)
    next
      assume "v = Some ''public''" with s show ?thesis by (simp add: nv)
    next
      assume "v = Some ?v0" with s show ?thesis by (simp add: nv)
    qed
    with vcases have d0s: "opt_visibility d0 = Some ''specified''" by auto
    have ch: "opt_channel d0 = None"
    proof (rule ccontr)
      assume "opt_channel d0 \<noteq> None"
      with v0 have "opt_visibility d0 = Some ''public''" by simp
      with d0s show False by simp
    qed
    with us have us0: "opt_visibleUsers d0 = Some ?us" by simp
    have a: "opt_visibility (normalizeText env d1) = Some ''specified''"
      unfolding nt by (subst d1) (simp add: vs)
    have b: "opt_visibleUsers (normalizeText env d1) = Some ?us"
      unfolding nt by (subst d1) (simp add: us0)
    have c: "opt_reply (normalizeText env d1) = opt_reply (r_data r)"
      unfolding nt rd by (subst d1) simp
    from specifiedAudience_visibleUsers[OF sa a b]
    have "map_option (map user_id) vu =
           Some (map user_id ?us @
                 (case opt_reply (r_data r) of
                    None \<Rightarrow> []
                  | Some rp \<Rightarrow> if note_userId rp \<in> set (map user_id ?us) then []
                               else [note_userId rp]))"
      by (simp add: c)
    then show "note_visibleUserIds n =
        map user_id ?us
        @ (case opt_reply (r_data r) of
             None \<Rightarrow> []
           | Some rp \<Rightarrow> if note_userId rp \<in> set (map user_id ?us) then [] else [note_userId rp])"
      by (cases vu) (simp_all add: n rn buildNote_fields rd vs)
  qed
  show ?thesis by (intro exI[of _ r] conjI r n 1[folded tg] 2[folded tg])
qed

theorem stored_visibility_and_audience_witness:
  "NotesRepositoryUpdate ''n1'' specifiedReplyNote
     \<in> set (snd (edit sampleEnv alice ''n1'' specifiedReplyEdit False None))
   \<and> note_visibility specifiedReplyNote = ''specified''
   \<and> note_visibleUserIds specifiedReplyNote = [''u3'', ''u2'']"
proof -
  have h: "NotesRepositoryUpdate ''n1'' specifiedReplyNote
     \<in> set (snd (edit sampleEnv alice ''n1'' specifiedReplyEdit False None))"
    by code_simp
  have v: "note_visibility specifiedReplyNote = ''specified''
           \<and> note_visibleUserIds specifiedReplyNote = [''u3'', ''u2'']"
    by code_simp
  from stored_visibility_and_audience[OF disjI1[OF h]] h v show ?thesis by simp
qed

theorem stored_visibility_and_audience_counterexample:
  "edit sampleEnv alice ''n1'' specifiedEdit False None =
     (Inr (edited ''n1'' ''u1'' ''specified''),
      [NotesRepositoryUpdate ''n1'' (edited ''n1'' ''u1'' ''specified''),
       PostNoteEditedScheduled ''n1'' alice (prepared specifiedEdit ''specified'') False [] []])
   \<and> note_visibility (edited ''n1'' ''u1'' ''specified'') = ''specified''
   \<and> note_visibleUserIds (edited ''n1'' ''u1'' ''specified'') = []
   \<and> fst (edit sampleEnv alice ''n1'' directEdit False None) = Inr (edited ''n1'' ''u1'' ''direct'')"
  by code_simp

text \<open>
  Claim C9 (amended). For a local-only payload \<^verbatim>\<open>renderNoteOrRenoteActivity\<close> returns
  null: no activity is built, and no call of the fan-out carries one. The dispatch is
  not skipped, though. For a local author and an edit that is not silent the fan-out
  still calls the relay service (if the note is public) and the deliver manager, with
  the null activity and with the recipients it computes as for any other note: the
  remote mentioned users, the remote authors of the replied-to and renoted notes, and
  the followers. These are all the calls it makes to the federation transport.
\<close>

theorem localOnly_null_activity:
  assumes "opt_localOnly data = Some True"
  shows "renderNoteOrRenoteActivity env data note userId = None
     \<and> (\<forall>e \<in> set (snd (postNoteEdited env note user data silent tags mentionedUsers)).
           carriedActivity e = None)
     \<and> filter isFederationCall
         (snd (postNoteEdited env note user data silent tags mentionedUsers)) =
       (if \<not> silent \<and> isLocalUser user
           \<and> \<not> (opt_visibility data = Some ''specified'' \<and> opt_visibleUsers data = None)
        then (if note_visibility note = ''public''
              then [DeliverToRelays (user_id user) None] else [])
             @ [DeliverManagerExecute (user_id user) None
                  (map (\<lambda>u. DirectRecipe (user_id u)) (filter isRemoteUser mentionedUsers)
                   @ remoteAuthorRecipe env (opt_reply data)
                   @ remoteAuthorRecipe env (opt_renote data)
                   @ (if note_visibility note \<in> set [''public'', ''home'', ''followers'']
                      then [FollowersRecipe] else []))]
        else [])"
proof -
  have 1: "renderNoteOrRenoteActivity env data note userId = None" for userId
    using assms by (simp add: renderNoteOrRenoteActivity_def)
  have 2: "\<forall>e \<in> set (snd (postNoteEdited env note user data silent tags mentionedUsers)).
           carriedActivity e = None"
    using postNoteEdited_effects apDeliver_localOnly[OF assms] by blast
  have 3: "apDeliver env note user data mentionedUsers =
             (if note_visibility note = ''public''
              then [DeliverToRelays (user_id user) None] else [])
             @ [DeliverManagerExecute (user_id user) None
                  (map (\<lambda>u. DirectRecipe (user_id u)) (filter isRemoteUser mentionedUsers)
                   @ remoteAuthorRecipe env (opt_reply data)
                   @ remoteAuthorRecipe env (opt_renote data)
                   @ (if note_visibility note \<in> set [''public'', ''home'', ''followers'']
                      then [FollowersRecipe] else []))]"
    by (simp add: apDeliver_def Let_def 1)
  show ?thesis
    unfolding postNoteEdited_federation_calls 3[symmetric]
    using 1 2 by simp
qed

theorem localOnly_null_activity_witness:
  "opt_localOnly localOnlyData = Some True
   \<and> filter isFederationCall
        (snd (postNoteEdited sampleEnv ((edited ''n1'' ''u1'' ''home'')\<lparr>note_localOnly := True\<rparr>)
                alice (localOnlyData\<lparr>opt_visibility := Some ''home''\<rparr>) False [] [carol]))
       = [DeliverManagerExecute ''u1'' None [DirectRecipe ''u3'', FollowersRecipe]]"
proof -
  have h: "opt_localOnly (localOnlyData\<lparr>opt_visibility := Some ''home''\<rparr>) = Some True"
    by code_simp
  have h': "opt_localOnly localOnlyData = Some True" by code_simp
  have c: "filter isFederationCall
        (snd (postNoteEdited sampleEnv ((edited ''n1'' ''u1'' ''home'')\<lparr>note_localOnly := True\<rparr>)
                alice (localOnlyData\<lparr>opt_visibility := Some ''home''\<rparr>) False [] [carol]))
       = [DeliverManagerExecute ''u1'' None [DirectRecipe ''u3'', FollowersRecipe]]"
    by code_simp
  from localOnly_null_activity[OF h] h' c show ?thesis by simp
qed

theorem localOnly_null_activity_counterexample:
  "opt_localOnly localOnlyData = Some True
   \<and> filter isFederationCall
        (snd (postNoteEdited sampleEnv ((edited ''n1'' ''u1'' ''public'')\<lparr>note_localOnly := True\<rparr>)
                alice localOnlyData False [] [carol]))
       = [DeliverToRelays ''u1'' None,
          DeliverManagerExecute ''u1'' None [DirectRecipe ''u3'', FollowersRecipe]]"
  by code_simp

text \<open>
  Claim C10. In the record \<^verbatim>\<open>edit\<close> stores or returns, \<^verbatim>\<open>visibleUserIds\<close> is empty
  whenever the visibility is not \<^verbatim>\<open>specified\<close>, also when the payload lists visible
  users.
\<close>

theorem visibleUserIds_empty_unless_specified:
  assumes "NotesRepositoryUpdate i n \<in> set (snd (edit env user targetId data silent editor))
           \<or> fst (edit env user targetId data silent editor) = Inr n"
    and "note_visibility n \<noteq> ''specified''"
  shows "note_visibleUserIds n = []"
proof -
  from assms(1) obtain r where r: "resolve env user targetId data = Inr r" and n: "n = r_note r"
    using edit_stored by blast
  from r obtain tn em ms where b: "r_note r = buildNote env user tn (r_data r) (r_tags r) em ms"
    by (rule resolve_steps)
  from assms(2) show ?thesis
    unfolding n b buildNote_fields by (auto split: option.splits)
qed

theorem visibleUserIds_empty_unless_specified_witness:
  "fst (edit sampleEnv alice ''n1'' homeEdit False None) = Inr (edited ''n1'' ''u1'' ''home'')
   \<and> opt_visibleUsers homeEdit = Some [bob]
   \<and> note_visibility (edited ''n1'' ''u1'' ''home'') \<noteq> ''specified''
   \<and> note_visibleUserIds (edited ''n1'' ''u1'' ''home'') = []"
proof -
  have h1: "fst (edit sampleEnv alice ''n1'' homeEdit False None) = Inr (edited ''n1'' ''u1'' ''home'')"
    by code_simp
  have h2: "note_visibility (edited ''n1'' ''u1'' ''home'') \<noteq> ''specified''"
    by code_simp
  have h3: "opt_visibleUsers homeEdit = Some [bob]" by code_simp
  from visibleUserIds_empty_unless_specified[OF disjI2[OF h1] h2] h1 h2 h3
  show ?thesis by simp
qed

end
